theory Spec2Isabelle
  imports
    Complex_Main
    "HOL-Library.Word"
    "HOL-Library.AList"
    "HOL-Library.Char_ord"
    "HOL-Library.List_Lexorder"
begin

section \<open>Values, results and Go maps\<close>

text \<open>
  The client moves dynamically typed values around (\<^verbatim>\<open>map[string]any\<close>). A value of
  type \<^verbatim>\<open>any\<close> is one of the Go types the code switches on; \<open>VOther\<close> stands for a
  value of any other Go type and carries the name of that type. A \<^verbatim>\<open>float64\<close> is
  represented by the rational number it denotes (JSON decoding never yields NaN or an
  infinity).
\<close>

type_synonym int64 = "64 word"

datatype val =
    VNil
  | VBool bool
  | VInt int64
  | VInt64 int64
  | VFloat64 rat
  | VString string
  | VSlice "val list"
  | VMap "(string \<times> val) list"
  | VOther string

text \<open>
  A Go map is an association list in the order \<^verbatim>\<open>range\<close> visits it, or \<open>None\<close> for the
  nil map. Reading a nil map finds nothing; writing to it panics.
\<close>

type_synonym gomap = "(string \<times> val) list option"
type_synonym Params = gomap
type_synonym Record = gomap
type_synonym EmptyRecord = gomap
type_synonym RecordSet = "Record list"

record version =
  segments :: "int list"
  pre :: string
  metadata :: string

text \<open>
  The run-time panics the code can raise, and its error values. \<open>NotFoundError\<close> is the
  struct type of that name with its two fields. Every other constructor stands for the
  error made at one place of the code (\<^verbatim>\<open>fmt.Errorf\<close>, \<^verbatim>\<open>errors.New\<close>, or an error a
  library call returned) and carries the arguments of its message; \<open>OtherError\<close> is
  any error made elsewhere, by a callback.
\<close>

datatype panic =
    NilPointerDereference
  | IndexOutOfRange
  | SliceBoundsOutOfRange
  | InterfaceConversion
  | AssignmentToNilMap
  | NoCredentials

datatype error =
    NotFoundError string string
  | MoreThanOneResource string string
  | NoIdField
  | UnexpectedIdType string
  | UnsupportedType
  | NotSupportedInVersion string "version option" version
  | UnknownVerb string
  | MarshalError
  | UnmarshalError
  | JoinPathError
  | RequestFailed
  | PerformFailed string string
  | ServerUnreachable
  | InvalidStatusCode int "val option"
  | TaskStillRunning string int64
  | UnexpectedMessageFormat string
  | TaskNoMessages string int64
  | TaskFailed string int64 string
  | TaskDidNotComplete
  | VersionMalformed
  | OtherError string

text \<open>
  A call returns a value, returns an error value, or panics. A panic unwinds through every
  caller, also through those that drop or inspect the error value.
\<close>

datatype 'a res = Ok 'a | Err error | Panic panic

text \<open>
  Map operations: \<^verbatim>\<open>v, ok := m[k]\<close>, \<^verbatim>\<open>m[k]\<close> (nil when the key is absent), the
  entries \<^verbatim>\<open>range m\<close> visits, and \<^verbatim>\<open>m[k] = v\<close>.
\<close>

definition lookup :: "gomap \<Rightarrow> string \<Rightarrow> val option" where
  "lookup m k = (case m of None \<Rightarrow> None | Some al \<Rightarrow> map_of al k)"

definition index :: "gomap \<Rightarrow> string \<Rightarrow> val" where
  "index m k = (case lookup m k of None \<Rightarrow> VNil | Some v \<Rightarrow> v)"

definition entries :: "gomap \<Rightarrow> (string \<times> val) list" where
  "entries m = (case m of None \<Rightarrow> [] | Some al \<Rightarrow> al)"

definition assign :: "gomap \<Rightarrow> string \<Rightarrow> val \<Rightarrow> gomap res" where
  "assign m k v =
     (case m of None \<Rightarrow> Panic AssignmentToNilMap
      | Some al \<Rightarrow> Ok (Some (AList.update k v al)))"

section \<open>Params\<close>

text \<open>
  \<^verbatim>\<open>func (pr *Params) Update(other Params, override bool)\<close>: the loop over \<open>other\<close>,
  entry by entry. An entry whose key exists in the receiver is skipped when \<open>override\<close>
  is set; every other entry is written.
\<close>

fun Params_Update_loop :: "Params \<Rightarrow> (string \<times> val) list \<Rightarrow> bool \<Rightarrow> Params res" where
  "Params_Update_loop pr [] override = Ok pr"
| "Params_Update_loop pr ((key, value) # other) override =
     (if lookup pr key \<noteq> None \<and> override then Params_Update_loop pr other override
      else (case assign pr key value of
              Ok pr' \<Rightarrow> Params_Update_loop pr' other override
            | Err e \<Rightarrow> Err e
            | Panic p \<Rightarrow> Panic p))"

definition Params_Update :: "Params \<Rightarrow> Params \<Rightarrow> bool \<Rightarrow> Params res" where
  "Params_Update pr other override = Params_Update_loop pr (entries other) override"

section \<open>Helpers of utils.go\<close>

definition trunc :: "rat \<Rightarrow> int" where
  "trunc x = (if 0 \<le> x then \<lfloor>x\<rfloor> else \<lceil>x\<rceil>)"

text \<open>
  The conversion \<^verbatim>\<open>int64(v)\<close> of a float truncates toward zero. Outside the range of
  \<^verbatim>\<open>int64\<close> the language leaves the result to the implementation; the value here is
  the one amd64 produces.
\<close>

definition int64_of_float64 :: "rat \<Rightarrow> int64" where
  "int64_of_float64 x =
     (if - (2 ^ 63) \<le> trunc x \<and> trunc x < 2 ^ 63 then word_of_int (trunc x)
      else word_of_int (- (2 ^ 63)))"

fun type_name :: "val \<Rightarrow> string" where
  "type_name VNil = ''<nil>''"
| "type_name (VBool _) = ''bool''"
| "type_name (VInt _) = ''int''"
| "type_name (VInt64 _) = ''int64''"
| "type_name (VFloat64 _) = ''float64''"
| "type_name (VString _) = ''string''"
| "type_name (VSlice _) = ''[]interface {}''"
| "type_name (VMap _) = ''map[string]interface {}''"
| "type_name (VOther t) = t"

fun toInt :: "val \<Rightarrow> int64 res" where
  "toInt (VInt64 v) = Ok v"
| "toInt (VFloat64 v) = Ok (int64_of_float64 v)"
| "toInt (VInt v) = Ok v"
| "toInt v = Err (UnexpectedIdType (type_name v))"

text \<open>\<^verbatim>\<open>strings.Split(s, ".")\<close> and \<^verbatim>\<open>strings.Join\<close>.\<close>

fun split_acc :: "char \<Rightarrow> string \<Rightarrow> string \<Rightarrow> string list" where
  "split_acc sep [] cur = [rev cur]"
| "split_acc sep (c # cs) cur =
     (if c = sep then rev cur # split_acc sep cs [] else split_acc sep cs (c # cur))"

definition strings_Split :: "string \<Rightarrow> char \<Rightarrow> string list" where
  "strings_Split s sep = split_acc sep s []"

fun strings_Join :: "string list \<Rightarrow> string \<Rightarrow> string" where
  "strings_Join [] sep = []"
| "strings_Join [x] sep = x"
| "strings_Join (x # y # ys) sep = x @ sep @ strings_Join (y # ys) sep"

text \<open>
  \<^verbatim>\<open>sanitizeVersion\<close>: \<^verbatim>\<open>segments[:3]\<close> is a slice expression on the result of
  \<^verbatim>\<open>strings.Split\<close>, whose capacity is its length; with fewer than three segments the
  expression panics.
\<close>

definition sanitizeVersion :: "string \<Rightarrow> (string \<times> bool) res" where
  "sanitizeVersion v =
     (let segs = strings_Split v (CHR ''.'');
          truncated = (length segs > 3)
      in if length segs < 3 then Panic SliceBoundsOutOfRange
         else Ok (strings_Join (take 3 segs) ''.'', truncated))"

text \<open>ASCII case mapping (\<^verbatim>\<open>strings.ToUpper\<close>, \<^verbatim>\<open>strings.ToLower\<close>) and decimal printing.\<close>

definition ascii_lower :: string where
  "ascii_lower = ''abcdefghijklmnopqrstuvwxyz''"

definition ascii_upper :: string where
  "ascii_upper = ''ABCDEFGHIJKLMNOPQRSTUVWXYZ''"

definition strings_ToUpper :: "string \<Rightarrow> string" where
  "strings_ToUpper s =
     map (\<lambda>c. case map_of (zip ascii_lower ascii_upper) c of Some u \<Rightarrow> u | None \<Rightarrow> c) s"

definition strings_ToLower :: "string \<Rightarrow> string" where
  "strings_ToLower s =
     map (\<lambda>c. case map_of (zip ascii_upper ascii_lower) c of Some l \<Rightarrow> l | None \<Rightarrow> c) s"

definition strings_Trim :: "string \<Rightarrow> char \<Rightarrow> string" where
  "strings_Trim s c = rev (dropWhile (\<lambda>x. x = c) (rev (dropWhile (\<lambda>x. x = c) s)))"

fun string_of_nat :: "nat \<Rightarrow> string" where
  "string_of_nat n =
     (if n < 10 then [''0123456789'' ! n]
      else string_of_nat (n div 10) @ [''0123456789'' ! (n mod 10)])"

declare string_of_nat.simps [simp del]

definition string_of_int :: "int \<Rightarrow> string" where
  "string_of_int i =
     (if i < 0 then CHR ''-'' # string_of_nat (nat (- i)) else string_of_nat (nat i))"

section \<open>Configuration, session state and environment\<close>

text \<open>
  \<^verbatim>\<open>RecordUnion\<close> is the constraint \<^verbatim>\<open>Record | EmptyRecord | RecordSet\<close>; \<open>Renderable\<close>
  is the interface all three implement. \<open>RNil\<close> is the nil interface value and \<open>ROther\<close>
  a value of any other implementing type.
\<close>

datatype shape = TRecord | TRecordSet | TEmptyRecord

datatype Renderable =
    RRecord Record
  | RRecordSet RecordSet
  | REmptyRecord EmptyRecord
  | RNil
  | ROther string

text \<open>
  An instantiation of a function generic in \<open>T\<close>: the type, the conversion
  \<^verbatim>\<open>Renderable(x)\<close> and the type assertion \<^verbatim>\<open>x.(T)\<close>, which finds no value when the
  dynamic type differs.
\<close>

record 'a RecordUnion =
  shape :: shape
  toRenderable :: "'a \<Rightarrow> Renderable"
  assertT :: "Renderable \<Rightarrow> 'a option"

definition T_Record :: "Record RecordUnion" where
  "T_Record = \<lparr>shape = TRecord, toRenderable = RRecord,
     assertT = (\<lambda>x. case x of RRecord r \<Rightarrow> Some r | _ \<Rightarrow> None)\<rparr>"

definition T_RecordSet :: "RecordSet RecordUnion" where
  "T_RecordSet = \<lparr>shape = TRecordSet, toRenderable = RRecordSet,
     assertT = (\<lambda>x. case x of RRecordSet r \<Rightarrow> Some r | _ \<Rightarrow> None)\<rparr>"

definition T_EmptyRecord :: "EmptyRecord RecordUnion" where
  "T_EmptyRecord = \<lparr>shape = TEmptyRecord, toRenderable = REmptyRecord,
     assertT = (\<lambda>x. case x of REmptyRecord r \<Rightarrow> Some r | _ \<Rightarrow> None)\<rparr>"

record VMSConfig =
  Host :: string
  Port :: "64 word"
  Username :: string
  Password :: string
  ApiToken :: string
  SslVerify :: bool
  ApiVersion :: string
  BeforeRequestFn :: "(string \<Rightarrow> string \<Rightarrow> string option \<Rightarrow> unit res) option"
  AfterRequestFn :: "(Renderable \<Rightarrow> Renderable res) option"

record VMSSession =
  config :: VMSConfig

record VMSRest =
  Session :: VMSSession

record jwtToken =
  Access :: string
  Refresh :: string
  CreatedAt :: int

record JWTAuthenticator =
  auth_Username :: string
  auth_Password :: string
  Token :: "jwtToken option"
  initialized :: bool

datatype Authenticator = JWT JWTAuthenticator | ApiRToken string

text \<open>
  One exchange on the wire: the two token endpoints of the authenticator, and a request of
  the session (verb, URL, body, Authorization header).
\<close>

datatype http_call =
    PostToken string string string
  | PostTokenRefresh string string
  | Do string string string string

record http_response =
  StatusCode :: int
  Body :: "val option"

record URL =
  Scheme :: string
  URL_Host :: string
  Path :: string
  RawQuery :: string

text \<open>
  What lies outside the repository: the network, together with the functions of the Go
  standard library and of the version library whose results the code only passes on.
  \<open>transport\<close> answers a call, given the time and the calls made so far, with the time
  the exchange takes and a response, or none when the exchange fails. A response body is the
  JSON value it decodes to, or none when it cannot be read or decoded.
\<close>

record env =
  transport :: "int \<Rightarrow> http_call list \<Rightarrow> http_call \<Rightarrow> nat \<times> http_response option"
  fmt_Sprint :: "val \<Rightarrow> string"
  json_Marshal :: "gomap \<Rightarrow> string option"
  json_Unmarshal_jwtToken :: "val option \<Rightarrow> (string \<times> string) option"
  url_JoinPath :: "string \<Rightarrow> string list \<Rightarrow> string option"
  url_String :: "URL \<Rightarrow> string"
  http_NewRequest :: "string \<Rightarrow> string \<Rightarrow> bool"
  version_NewVersion :: "string \<Rightarrow> version option"
  version_Core :: "version \<Rightarrow> version"
  version_Compare :: "version \<Rightarrow> version \<Rightarrow> int"

text \<open>
  The mutable state: the calls made so far, the clock (nanoseconds), the authenticator of
  the session, and the package variable \<^verbatim>\<open>sysVersion\<close>.
\<close>

record state =
  calls :: "http_call list"
  clock :: int
  auth :: Authenticator
  sysVersion :: "version option"

text \<open>One HTTP exchange (\<^verbatim>\<open>client.Do\<close>, \<^verbatim>\<open>client.Post\<close>): it is recorded and takes its
  time.\<close>

definition roundtrip :: "env \<Rightarrow> http_call \<Rightarrow> state \<Rightarrow> http_response option \<times> state" where
  "roundtrip env c s =
     (case transport env (clock s) (calls s) c of
        (dt, r) \<Rightarrow> (r, s\<lparr>calls := calls s @ [c], clock := clock s + int dt\<rparr>))"

definition validateResponse :: "http_response option \<Rightarrow> http_response option \<times> error option" where
  "validateResponse response =
     (case response of
        None \<Rightarrow> (None, Some ServerUnreachable)
      | Some r \<Rightarrow>
          if 200 \<le> StatusCode r \<and> StatusCode r \<le> 299 then (Some r, None)
          else (Some r, Some (InvalidStatusCode (StatusCode r) (Body r))))"

section \<open>Authenticator (auth.go)\<close>

definition TokenRefreshTime :: int where
  "TokenRefreshTime = 10 * 60 * 1000000000"

text \<open>\<^verbatim>\<open>Time.Sub\<close> yields a \<^verbatim>\<open>Duration\<close>, an \<^verbatim>\<open>int64\<close> count of nanoseconds, saturating.\<close>

definition time_Sub :: "int \<Rightarrow> int \<Rightarrow> int" where
  "time_Sub t u = max (- (2 ^ 63)) (min (2 ^ 63 - 1) (t - u))"

definition CreateAuthenticator :: "VMSConfig \<Rightarrow> Authenticator res" where
  "CreateAuthenticator cfg =
     (if Username cfg \<noteq> [] \<and> Password cfg \<noteq> [] then
        Ok (JWT \<lparr>auth_Username = Username cfg, auth_Password = Password cfg,
                 Token = None, initialized = False\<rparr>)
      else if ApiToken cfg \<noteq> [] then Ok (ApiRToken (ApiToken cfg))
      else Panic NoCredentials)"

text \<open>
  \<^verbatim>\<open>parseToken\<close>: decode the body into the \<^verbatim>\<open>access\<close> and \<^verbatim>\<open>refresh\<close> fields of a
  token and stamp it with the current time.
\<close>

definition parseToken :: "env \<Rightarrow> http_response \<Rightarrow> int \<Rightarrow> jwtToken res" where
  "parseToken env rsp now =
     (case json_Unmarshal_jwtToken env (Body rsp) of
        None \<Rightarrow> Err UnmarshalError
      | Some (a, r) \<Rightarrow> Ok \<lparr>Access = a, Refresh = r, CreatedAt = now\<rparr>)"

definition refreshToken :: "env \<Rightarrow> VMSConfig \<Rightarrow> jwtToken \<Rightarrow> state \<Rightarrow> http_response option \<times> state" where
  "refreshToken env cfg tok s = roundtrip env (PostTokenRefresh (Host cfg) (Refresh tok)) s"

definition acquireToken :: "env \<Rightarrow> VMSConfig \<Rightarrow> state \<Rightarrow> http_response option \<times> state" where
  "acquireToken env cfg s =
     roundtrip env
       (PostToken (Host cfg @ '':'' @ string_of_nat (unat (Port cfg))) (Username cfg) (Password cfg)) s"

text \<open>
  The tail of \<^verbatim>\<open>JWTAuthenticator.Authorize\<close>, shared by both exchanges: validate the
  response, parse the token, store it.
\<close>

definition storeToken :: "env \<Rightarrow> JWTAuthenticator \<Rightarrow> http_response option \<Rightarrow> state
    \<Rightarrow> unit res \<times> state" where
  "storeToken env a resp s =
     (case validateResponse resp of
        (_, Some e) \<Rightarrow> (Err e, s\<lparr>auth := JWT a\<rparr>)
      | (None, None) \<Rightarrow> (Panic NilPointerDereference, s\<lparr>auth := JWT a\<rparr>)
      | (Some r, None) \<Rightarrow>
          (case parseToken env r (clock s) of
             Ok token \<Rightarrow> (Ok (), s\<lparr>auth := JWT (a\<lparr>Token := Some token\<rparr>)\<rparr>)
           | Err e \<Rightarrow> (Err e, s\<lparr>auth := JWT a\<rparr>)
           | Panic p \<Rightarrow> (Panic p, s\<lparr>auth := JWT a\<rparr>)))"

definition JWT_Authorize :: "env \<Rightarrow> VMSConfig \<Rightarrow> JWTAuthenticator \<Rightarrow> state \<Rightarrow> unit res \<times> state" where
  "JWT_Authorize env cfg a s =
     (if initialized a then
        (case Token a of
           None \<Rightarrow> (Panic NilPointerDereference, s)
         | Some tok \<Rightarrow>
             (let tokenExpired = (time_Sub (clock s) (CreatedAt tok) \<ge> TokenRefreshTime)
              in if \<not> tokenExpired then (Ok (), s)
                 else (case refreshToken env cfg tok s of
                         (resp, s1) \<Rightarrow> storeToken env a resp s1)))
      else (case acquireToken env cfg s of
              (resp, s1) \<Rightarrow> storeToken env (a\<lparr>initialized := True\<rparr>) resp s1))"

definition Authorize :: "env \<Rightarrow> VMSConfig \<Rightarrow> state \<Rightarrow> unit res \<times> state" where
  "Authorize env cfg s =
     (case auth s of
        JWT a \<Rightarrow> JWT_Authorize env cfg a s
      | ApiRToken t \<Rightarrow>
          (if t = [] then (Ok (), s\<lparr>auth := ApiRToken (ApiToken cfg)\<rparr>) else (Ok (), s)))"

definition SetAuthHeader :: "env \<Rightarrow> VMSConfig \<Rightarrow> state \<Rightarrow> string res \<times> state" where
  "SetAuthHeader env cfg s =
     (case Authorize env cfg s of
        (Err e, s1) \<Rightarrow> (Err e, s1)
      | (Panic p, s1) \<Rightarrow> (Panic p, s1)
      | (Ok _, s1) \<Rightarrow>
          (case auth s1 of
             JWT a \<Rightarrow>
               (case Token a of
                  None \<Rightarrow> (Panic NilPointerDereference, s1)
                | Some tok \<Rightarrow> (Ok (''Bearer '' @ Access tok), s1))
           | ApiRToken t \<Rightarrow> (Ok (''Api-Token '' @ t), s1)))"

text \<open>The authenticator of the session holds a token: it is the token-exchange
  authenticator, it has been through its first exchange, and a token is stored.\<close>

definition token_stored :: "state \<Rightarrow> bool" where
  "token_stored s =
     (case auth s of JWT a \<Rightarrow> initialized a \<and> Token a \<noteq> None | ApiRToken _ \<Rightarrow> False)"

section \<open>Session (verbs over the transport)\<close>

text \<open>
  The five verbs of \<^verbatim>\<open>VMSSession\<close> are named \<open>Session_Get\<close>, \<open>Session_Post\<close> and so
  on, apart from the operations of a resource entry. Of the headers only the authorization
  is kept; the others are constants.
\<close>

definition setupHeaders :: "env \<Rightarrow> VMSConfig \<Rightarrow> state \<Rightarrow> string res \<times> state" where
  "setupHeaders env cfg s = SetAuthHeader env cfg s"

text \<open>
  \<^verbatim>\<open>doRequest\<close> returns \<^verbatim>\<open>validateResponse(response)\<close>, a response together with an
  error; its one caller drops the response when the error is set, so the model returns the
  error alone.
\<close>

definition doRequest :: "env \<Rightarrow> VMSSession \<Rightarrow> string \<Rightarrow> string \<Rightarrow> string option \<Rightarrow> state
    \<Rightarrow> http_response res \<times> state" where
  "doRequest env sess verb url body s =
     (let body' = (case body of None \<Rightarrow> [] | Some b \<Rightarrow> b)
      in if \<not> http_NewRequest env verb url then (Err RequestFailed, s)
         else (case setupHeaders env (config sess) s of
                 (Err e, s1) \<Rightarrow> (Err e, s1)
               | (Panic p, s1) \<Rightarrow> (Panic p, s1)
               | (Ok authorization, s1) \<Rightarrow>
                   (case roundtrip env (Do verb url body' authorization) s1 of
                      (None, s2) \<Rightarrow> (Err (PerformFailed verb url), s2)
                    | (Some r, s2) \<Rightarrow>
                        (case validateResponse (Some r) of
                           (_, Some e) \<Rightarrow> (Err e, s2)
                         | (None, None) \<Rightarrow> (Panic NilPointerDereference, s2)
                         | (Some r', None) \<Rightarrow> (Ok r', s2)))))"

definition Session_Get :: "env \<Rightarrow> VMSSession \<Rightarrow> string \<Rightarrow> string option \<Rightarrow> state \<Rightarrow> http_response res \<times> state" where
  "Session_Get env sess url body s = doRequest env sess ''GET'' url None s"

definition Session_Post :: "env \<Rightarrow> VMSSession \<Rightarrow> string \<Rightarrow> string option \<Rightarrow> state \<Rightarrow> http_response res \<times> state" where
  "Session_Post env sess url body s = doRequest env sess ''POST'' url body s"

definition Session_Put :: "env \<Rightarrow> VMSSession \<Rightarrow> string \<Rightarrow> string option \<Rightarrow> state \<Rightarrow> http_response res \<times> state" where
  "Session_Put env sess url body s = doRequest env sess ''PUT'' url body s"

definition Session_Patch :: "env \<Rightarrow> VMSSession \<Rightarrow> string \<Rightarrow> string option \<Rightarrow> state \<Rightarrow> http_response res \<times> state" where
  "Session_Patch env sess url body s = doRequest env sess ''PATCH'' url body s"

definition Session_Delete :: "env \<Rightarrow> VMSSession \<Rightarrow> string \<Rightarrow> string option \<Rightarrow> state \<Rightarrow> http_response res \<times> state" where
  "Session_Delete env sess url body s = doRequest env sess ''DELETE'' url body s"

section \<open>Query strings and URLs\<close>

text \<open>\<^verbatim>\<open>url.QueryEscape\<close>: letters, digits and \<open>-_.~\<close> stay, a space becomes \<open>+\<close>, every
  other byte is percent-encoded.\<close>

definition hex_byte :: "char \<Rightarrow> string" where
  "hex_byte c =
     [CHR ''%'', ''0123456789ABCDEF'' ! ((of_char c :: nat) div 16),
      ''0123456789ABCDEF'' ! ((of_char c :: nat) mod 16)]"

definition url_QueryEscape :: "string \<Rightarrow> string" where
  "url_QueryEscape s =
     concat (map (\<lambda>c. if c \<in> set (ascii_lower @ ascii_upper @ ''0123456789-_.~'') then [c]
                       else if c = CHR '' '' then ''+'' else hex_byte c) s)"

text \<open>
  \<^verbatim>\<open>convertMapToQuery\<close>: every value is stringified with \<^verbatim>\<open>fmt.Sprint\<close>;
  \<^verbatim>\<open>Values.Encode\<close> writes the pairs sorted by key.
\<close>

definition convertMapToQuery :: "env \<Rightarrow> Params \<Rightarrow> string" where
  "convertMapToQuery env params =
     strings_Join
       (map (\<lambda>(k, v). url_QueryEscape k @ ''='' @ url_QueryEscape (fmt_Sprint env v))
            (sort_key fst (entries params)))
       ''&''"

definition ToQuery :: "env \<Rightarrow> Params \<Rightarrow> string" where
  "ToQuery env pr = convertMapToQuery env pr"

definition ToBody :: "env \<Rightarrow> Params \<Rightarrow> string res" where
  "ToBody env pr = (case json_Marshal env pr of None \<Rightarrow> Err MarshalError | Some b \<Rightarrow> Ok b)"

definition buildUrl :: "env \<Rightarrow> VMSSession \<Rightarrow> string \<Rightarrow> string \<Rightarrow> string \<Rightarrow> string res" where
  "buildUrl env s path query apiVer =
     (let cfg = config s;
          apiVer' = (if apiVer \<noteq> [] then ApiVersion cfg else apiVer)
      in case url_JoinPath env ''api'' [apiVer', strings_Trim path (CHR ''/'')] of
           None \<Rightarrow> Err JoinPathError
         | Some path' \<Rightarrow>
             (let url = \<lparr>Scheme = ''https'',
                         URL_Host = Host cfg @ '':'' @ string_of_nat (unat (Port cfg)),
                         Path = path', RawQuery = []\<rparr>;
                  url' = (if query \<noteq> [] then url\<lparr>RawQuery := query\<rparr> else url)
              in Ok (url_String env url')))"

section \<open>The generic dispatcher\<close>

definition resourceTypeKey :: string where
  "resourceTypeKey = ''@resourceType''"

text \<open>
  The interface \<^verbatim>\<open>InterceptableVastResource\<close>, as the dispatcher sees its argument: the
  session, the resource type and the two interceptor methods.
\<close>

record InterceptableVastResource =
  getSession :: VMSSession
  GetResourceType :: string
  doBeforeRequest :: "string \<Rightarrow> string \<Rightarrow> string option \<Rightarrow> unit res"
  doAfterRequest :: "Renderable \<Rightarrow> Renderable res"

fun is_object :: "val \<Rightarrow> bool" where
  "is_object (VMap _) = True"
| "is_object VNil = True"
| "is_object _ = False"

fun to_map :: "val \<Rightarrow> gomap" where
  "to_map (VMap m) = Some m"
| "to_map _ = None"

text \<open>
  \<^verbatim>\<open>unmarshalToRecordUnion\<close>: for \<^verbatim>\<open>EmptyRecord\<close> the body is not read and the nil map
  is returned. Otherwise the body is decoded into \<open>T\<close>: JSON \<open>null\<close> decodes to the nil
  map or slice, an object to a map, an array of objects (or nulls) to a record set.
\<close>

definition unmarshalToRecordUnion :: "shape \<Rightarrow> http_response \<Rightarrow> Renderable res" where
  "unmarshalToRecordUnion T response =
     (case T of
        TEmptyRecord \<Rightarrow> Ok (REmptyRecord None)
      | TRecord \<Rightarrow>
          (case Body response of
             None \<Rightarrow> Err UnmarshalError
           | Some v \<Rightarrow> if is_object v then Ok (RRecord (to_map v)) else Err UnmarshalError)
      | TRecordSet \<Rightarrow>
          (case Body response of
             None \<Rightarrow> Err UnmarshalError
           | Some VNil \<Rightarrow> Ok (RRecordSet [])
           | Some (VSlice vs) \<Rightarrow>
               if list_all is_object vs then Ok (RRecordSet (map to_map vs))
               else Err UnmarshalError
           | Some _ \<Rightarrow> Err UnmarshalError))"

text \<open>
  Tagging one record with the resource type unless it has a tag, and the loop over a record
  set.
\<close>

definition stamp :: "string \<Rightarrow> Record \<Rightarrow> Record res" where
  "stamp resourceType v =
     (if lookup v resourceTypeKey = None then assign v resourceTypeKey (VString resourceType)
      else Ok v)"

fun stamp_all :: "string \<Rightarrow> Record list \<Rightarrow> Record list res" where
  "stamp_all resourceType [] = Ok []"
| "stamp_all resourceType (rec # recs) =
     (case stamp resourceType rec of
        Ok rec' \<Rightarrow>
          (case stamp_all resourceType recs of
             Ok recs' \<Rightarrow> Ok (rec' # recs')
           | Err e \<Rightarrow> Err e
           | Panic p \<Rightarrow> Panic p)
      | Err e \<Rightarrow> Err e
      | Panic p \<Rightarrow> Panic p)"

text \<open>\<^verbatim>\<open>setResourceKey\<close>, after its guard on the incoming error.\<close>

definition setResourceKey :: "Renderable \<Rightarrow> string \<Rightarrow> Renderable res" where
  "setResourceKey result resourceType =
     (case result of
        RRecord v \<Rightarrow>
          (case stamp resourceType v of
             Ok v' \<Rightarrow> Ok (RRecord v') | Err e \<Rightarrow> Err e | Panic p \<Rightarrow> Panic p)
      | RRecordSet v \<Rightarrow>
          (case stamp_all resourceType v of
             Ok v' \<Rightarrow> Ok (RRecordSet v') | Err e \<Rightarrow> Err e | Panic p \<Rightarrow> Panic p)
      | REmptyRecord v \<Rightarrow> Ok (REmptyRecord v)
      | _ \<Rightarrow> Err UnsupportedType)"

definition vmsMethod :: "string \<Rightarrow>
    (env \<Rightarrow> VMSSession \<Rightarrow> string \<Rightarrow> string option \<Rightarrow> state \<Rightarrow> http_response res \<times> state) option" where
  "vmsMethod verb =
     (if verb = ''GET'' then Some Session_Get
      else if verb = ''POST'' then Some Session_Post
      else if verb = ''PUT'' then Some Session_Put
      else if verb = ''PATCH'' then Some Session_Patch
      else if verb = ''DELETE'' then Some Session_Delete
      else None)"

text \<open>
  The part of \<^verbatim>\<open>request\<close> after the HTTP call: decode, stamp the resource type, run the
  after-request interceptor, and assert the type \<open>T\<close> on what it returned.
\<close>

definition finish :: "'a RecordUnion \<Rightarrow> InterceptableVastResource \<Rightarrow> http_response \<Rightarrow> 'a res" where
  "finish T r response =
     (case unmarshalToRecordUnion (shape T) response of
        Err e \<Rightarrow> Err e
      | Panic p \<Rightarrow> Panic p
      | Ok result \<Rightarrow>
          (case setResourceKey result (GetResourceType r) of
             Err e \<Rightarrow> Err e
           | Panic p \<Rightarrow> Panic p
           | Ok result' \<Rightarrow>
               (case doAfterRequest r result' of
                  Err e \<Rightarrow> Err e
                | Panic p \<Rightarrow> Panic p
                | Ok interceptedResult \<Rightarrow>
                    (case assertT T interceptedResult of
                       None \<Rightarrow> Panic InterfaceConversion
                     | Some x \<Rightarrow> Ok x))))"

text \<open>
  The two readers \<^verbatim>\<open>request\<close> makes of a body: the data sent, and the copy handed to the
  before-request interceptor. Without a body the data is the empty reader and the copy is
  nil.
\<close>

definition bodyReaders :: "env \<Rightarrow> Params \<Rightarrow> (string option \<times> string option) res" where
  "bodyReaders env body =
     (if body \<noteq> None then
        (case ToBody env body of
           Err e \<Rightarrow> Err e
         | Panic p \<Rightarrow> Panic p
         | Ok data \<Rightarrow>
             (case ToBody env body of
                Err e \<Rightarrow> Err e
              | Panic p \<Rightarrow> Panic p
              | Ok beforeRequestCbData \<Rightarrow> Ok (Some data, Some beforeRequestCbData)))
      else Ok (Some [], None))"

definition request :: "'a RecordUnion \<Rightarrow> env \<Rightarrow> InterceptableVastResource \<Rightarrow> string \<Rightarrow> string
    \<Rightarrow> string \<Rightarrow> Params \<Rightarrow> Params \<Rightarrow> state \<Rightarrow> 'a res \<times> state" where
  "request T env r verb0 path apiVer params body s =
     (let verb = strings_ToUpper verb0;
          session = getSession r;
          query = (if params \<noteq> None then ToQuery env params else [])
      in case vmsMethod verb of
           None \<Rightarrow> (Err (UnknownVerb verb), s)
         | Some send \<Rightarrow>
             (case bodyReaders env body of
                Err e \<Rightarrow> (Err e, s)
              | Panic p \<Rightarrow> (Panic p, s)
              | Ok (data, beforeRequestCbData) \<Rightarrow>
                  (case buildUrl env session path query apiVer of
                     Err e \<Rightarrow> (Err e, s)
                   | Panic p \<Rightarrow> (Panic p, s)
                   | Ok url \<Rightarrow>
                       (case doBeforeRequest r verb url beforeRequestCbData of
                          Err e \<Rightarrow> (Err e, s)
                        | Panic p \<Rightarrow> (Panic p, s)
                        | Ok _ \<Rightarrow>
                            (case send env session url data s of
                               (Err e, s1) \<Rightarrow> (Err e, s1)
                             | (Panic p, s1) \<Rightarrow> (Panic p, s1)
                             | (Ok response, s1) \<Rightarrow> (finish T r response, s1))))))"

section \<open>Resource entries and the version gate\<close>

record VastResourceEntry =
  resourcePath :: string
  resourceType :: string
  apiVersion :: string
  availableFromVersion :: "version option"
  rest :: VMSRest

definition dummyClusterVersion :: string where
  "dummyClusterVersion = ''0.0.0''"

definition newResource :: "env \<Rightarrow> VMSRest \<Rightarrow> string \<Rightarrow> string \<Rightarrow> string \<Rightarrow> VastResourceEntry" where
  "newResource env r T path availableFrom =
     \<lparr>resourcePath = path, resourceType = T, apiVersion = [],
      availableFromVersion =
        (if availableFrom = dummyClusterVersion then None else version_NewVersion env availableFrom),
      rest = r\<rparr>"

definition Versions :: "env \<Rightarrow> VMSRest \<Rightarrow> VastResourceEntry" where
  "Versions env r = newResource env r ''Version'' ''versions'' dummyClusterVersion"

text \<open>
  Modelled from the spec: the interceptor methods \<^verbatim>\<open>doBeforeRequest\<close> and
  \<^verbatim>\<open>doAfterRequest\<close> of a resource entry are not among the sources. By the spec they
  invoke the optional callbacks of the configuration: the before-request callback receives
  verb, URL and the copy of the body and may reject the call; the after-request callback
  receives the decoded, tagged result and may replace it. An absent callback does nothing.
\<close>

definition entry_doBeforeRequest :: "VastResourceEntry \<Rightarrow> string \<Rightarrow> string \<Rightarrow> string option \<Rightarrow> unit res" where
  "entry_doBeforeRequest e verb url body =
     (case BeforeRequestFn (config (Session (rest e))) of
        None \<Rightarrow> Ok () | Some f \<Rightarrow> f verb url body)"

definition entry_doAfterRequest :: "VastResourceEntry \<Rightarrow> Renderable \<Rightarrow> Renderable res" where
  "entry_doAfterRequest e response =
     (case AfterRequestFn (config (Session (rest e))) of
        None \<Rightarrow> Ok response | Some f \<Rightarrow> f response)"

definition interceptable :: "VastResourceEntry \<Rightarrow> InterceptableVastResource" where
  "interceptable e =
     \<lparr>getSession = Session (rest e), GetResourceType = resourceType e,
      doBeforeRequest = entry_doBeforeRequest e, doAfterRequest = entry_doAfterRequest e\<rparr>"

text \<open>
  The second half of \<^verbatim>\<open>GetVersion\<close>, once the status records are there:
  \<^verbatim>\<open>result[0]["sys_version"].(string)\<close> indexes the record set and asserts a string,
  both unchecked.
\<close>

definition cacheVersion :: "env \<Rightarrow> RecordSet \<Rightarrow> state \<Rightarrow> version res \<times> state" where
  "cacheVersion env result s =
     (case result of
        [] \<Rightarrow> (Panic IndexOutOfRange, s)
      | r0 # _ \<Rightarrow>
          (case index r0 ''sys_version'' of
             VString sv \<Rightarrow>
               (case sanitizeVersion sv of
                  Panic p \<Rightarrow> (Panic p, s)
                | Err e \<Rightarrow> (Err e, s)
                | Ok (truncatedVersion, _) \<Rightarrow>
                    (case version_NewVersion env truncatedVersion of
                       None \<Rightarrow> (Err VersionMalformed, s)
                     | Some clusterVersion \<Rightarrow>
                         (Ok (version_Core env clusterVersion),
                          s\<lparr>sysVersion := Some (version_Core env clusterVersion)\<rparr>)))
           | _ \<Rightarrow> (Panic InterfaceConversion, s)))"

text \<open>
  The gate calls \<^verbatim>\<open>CompareWith\<close> and \<^verbatim>\<open>GetVersion\<close> on the version resource, which
  lists its records through the same gate; the cycle ends because the version resource has
  no minimum version. \<open>Entry_List\<close> is the operation \<^verbatim>\<open>List\<close> of a resource entry.
\<close>

function checkVastResourceVersionCompat :: "env \<Rightarrow> VastResourceEntry \<Rightarrow> state \<Rightarrow> unit res \<times> state"
  and CompareWith :: "env \<Rightarrow> VastResourceEntry \<Rightarrow> version \<Rightarrow> state \<Rightarrow> int res \<times> state"
  and GetVersion :: "env \<Rightarrow> VastResourceEntry \<Rightarrow> state \<Rightarrow> version res \<times> state"
  and Entry_List :: "env \<Rightarrow> VastResourceEntry \<Rightarrow> Params \<Rightarrow> state \<Rightarrow> RecordSet res \<times> state"
where
  "checkVastResourceVersionCompat env e s =
     (case availableFromVersion e of
        None \<Rightarrow> (Ok (), s)
      | Some minVersion \<Rightarrow>
          (case CompareWith env (Versions env (rest e)) minVersion s of
             (Err err, s1) \<Rightarrow> (Err err, s1)
           | (Panic p, s1) \<Rightarrow> (Panic p, s1)
           | (Ok compareOrd, s1) \<Rightarrow>
               (case GetVersion env (Versions env (rest e)) s1 of
                  (Panic p, s2) \<Rightarrow> (Panic p, s2)
                | (Err _, s2) \<Rightarrow>
                    (if compareOrd = - 1
                     then (Err (NotSupportedInVersion (resourceType e) None minVersion), s2)
                     else (Ok (), s2))
                | (Ok clusterVersion, s2) \<Rightarrow>
                    (if compareOrd = - 1
                     then (Err (NotSupportedInVersion (resourceType e) (Some clusterVersion) minVersion), s2)
                     else (Ok (), s2)))))"
| "CompareWith env v other s =
     (case GetVersion env v s of
        (Err err, s1) \<Rightarrow> (Err err, s1)
      | (Panic p, s1) \<Rightarrow> (Panic p, s1)
      | (Ok clusterVersion, s1) \<Rightarrow> (Ok (version_Compare env clusterVersion other), s1))"
| "GetVersion env v s =
     (case sysVersion s of
        Some sv \<Rightarrow> (Ok sv, s)
      | None \<Rightarrow>
          (case Entry_List env v (Some [(''status'', VString ''success'')]) s of
             (Err err, s1) \<Rightarrow> (Err err, s1)
           | (Panic p, s1) \<Rightarrow> (Panic p, s1)
           | (Ok result, s1) \<Rightarrow> cacheVersion env result s1))"
| "Entry_List env e params s =
     (case checkVastResourceVersionCompat env e s of
        (Err err, s1) \<Rightarrow> (Err err, s1)
      | (Panic p, s1) \<Rightarrow> (Panic p, s1)
      | (Ok _, s1) \<Rightarrow>
          request T_RecordSet env (interceptable e) ''GET'' (resourcePath e) (apiVersion e) params None s1)"
  by pat_completeness auto
termination
  apply (relation "measure (\<lambda>x. case x of
      Inl (Inl (env, e, s)) \<Rightarrow> (if availableFromVersion e = None then 0 else 4)
    | Inl (Inr (env, v, other, s)) \<Rightarrow> (if availableFromVersion v = None then 3 else 7)
    | Inr (Inl (env, v, s)) \<Rightarrow> (if availableFromVersion v = None then 2 else 6)
    | Inr (Inr (env, e, params, s)) \<Rightarrow> (if availableFromVersion e = None then 1 else 5))")
  apply (auto simp: Versions_def newResource_def)
  done

declare checkVastResourceVersionCompat.simps [simp del]
declare CompareWith.simps [simp del]
declare GetVersion.simps [simp del]
declare Entry_List.simps [simp del]


section \<open>CRUD operations of a resource entry (api_methods.go)\<close>

fun isNotFoundErr :: "error \<Rightarrow> bool" where
  "isNotFoundErr (NotFoundError _ _) = True"
| "isNotFoundErr _ = False"

text \<open>\<^verbatim>\<open>fmt.Sprintf("%s/%d", e.resourcePath, id)\<close>.\<close>

definition idPath :: "string \<Rightarrow> int64 \<Rightarrow> string" where
  "idPath path ident = path @ ''/'' @ string_of_int (sint ident)"

definition Create :: "env \<Rightarrow> VastResourceEntry \<Rightarrow> Params \<Rightarrow> state \<Rightarrow> Record res \<times> state" where
  "Create env e body s =
     (case checkVastResourceVersionCompat env e s of
        (Err err, s1) \<Rightarrow> (Err err, s1)
      | (Panic p, s1) \<Rightarrow> (Panic p, s1)
      | (Ok _, s1) \<Rightarrow>
          request T_Record env (interceptable e) ''POST'' (resourcePath e) (apiVersion e) None body s1)"

definition Update :: "env \<Rightarrow> VastResourceEntry \<Rightarrow> int64 \<Rightarrow> Params \<Rightarrow> state \<Rightarrow> Record res \<times> state" where
  "Update env e ident body s =
     (case checkVastResourceVersionCompat env e s of
        (Err err, s1) \<Rightarrow> (Err err, s1)
      | (Panic p, s1) \<Rightarrow> (Panic p, s1)
      | (Ok _, s1) \<Rightarrow>
          request T_Record env (interceptable e) ''PATCH'' (idPath (resourcePath e) ident)
            (apiVersion e) None body s1)"

definition DeleteById :: "env \<Rightarrow> VastResourceEntry \<Rightarrow> int64 \<Rightarrow> state \<Rightarrow> EmptyRecord res \<times> state" where
  "DeleteById env e ident s =
     (case checkVastResourceVersionCompat env e s of
        (Err err, s1) \<Rightarrow> (Err err, s1)
      | (Panic p, s1) \<Rightarrow> (Panic p, s1)
      | (Ok _, s1) \<Rightarrow>
          request T_EmptyRecord env (interceptable e) ''DELETE'' (idPath (resourcePath e) ident)
            (apiVersion e) None None s1)"

definition Get :: "env \<Rightarrow> VastResourceEntry \<Rightarrow> Params \<Rightarrow> state \<Rightarrow> Record res \<times> state" where
  "Get env e params s =
     (case checkVastResourceVersionCompat env e s of
        (Err err, s1) \<Rightarrow> (Err err, s1)
      | (Panic p, s1) \<Rightarrow> (Panic p, s1)
      | (Ok _, s1) \<Rightarrow>
          (case request T_RecordSet env (interceptable e) ''GET'' (resourcePath e) (apiVersion e)
                  params None s1 of
             (Err err, s2) \<Rightarrow> (Err err, s2)
           | (Panic p, s2) \<Rightarrow> (Panic p, s2)
           | (Ok result, s2) \<Rightarrow>
               (case result of
                  [] \<Rightarrow> (Err (NotFoundError (resourcePath e) (ToQuery env params)), s2)
                | [r] \<Rightarrow> (Ok r, s2)
                | _ \<Rightarrow> (Err (MoreThanOneResource (resourcePath e) (ToQuery env params)), s2))))"

definition GetById :: "env \<Rightarrow> VastResourceEntry \<Rightarrow> int64 \<Rightarrow> state \<Rightarrow> Record res \<times> state" where
  "GetById env e ident s =
     (case checkVastResourceVersionCompat env e s of
        (Err err, s1) \<Rightarrow> (Err err, s1)
      | (Panic p, s1) \<Rightarrow> (Panic p, s1)
      | (Ok _, s1) \<Rightarrow>
          request T_Record env (interceptable e) ''GET'' (idPath (resourcePath e) ident)
            (apiVersion e) None None s1)"

definition Delete :: "env \<Rightarrow> VastResourceEntry \<Rightarrow> Params \<Rightarrow> state \<Rightarrow> EmptyRecord res \<times> state" where
  "Delete env e params s =
     (case Get env e params s of
        (Panic p, s1) \<Rightarrow> (Panic p, s1)
      | (Err err, s1) \<Rightarrow> (if isNotFoundErr err then (Ok (Some []), s1) else (Err err, s1))
      | (Ok result, s1) \<Rightarrow>
          (case lookup result ''id'' of
             None \<Rightarrow> (Err NoIdField, s1)
           | Some idVal \<Rightarrow>
               (case toInt idVal of
                  Err err \<Rightarrow> (Err err, s1)
                | Panic p \<Rightarrow> (Panic p, s1)
                | Ok idInt \<Rightarrow> DeleteById env e idInt s1)))"

section \<open>Waiting for a task (vast_resource.go)\<close>

text \<open>The closure \<^verbatim>\<open>isTaskComplete\<close> of \<^verbatim>\<open>WaitTask\<close>: one poll of the task.\<close>

definition isTaskComplete :: "env \<Rightarrow> VastResourceEntry \<Rightarrow> int64 \<Rightarrow> state \<Rightarrow> Record res \<times> state" where
  "isTaskComplete env t taskId s =
     (case GetById env t taskId s of
        (Err err, s1) \<Rightarrow> (Err err, s1)
      | (Panic p, s1) \<Rightarrow> (Panic p, s1)
      | (Ok task, s1) \<Rightarrow>
          (let taskName = fmt_Sprint env (index task ''name'');
               taskState = strings_ToLower (fmt_Sprint env (index task ''state''))
           in case toInt (index task ''id'') of
                Err err \<Rightarrow> (Err err, s1)
              | Panic p \<Rightarrow> (Panic p, s1)
              | Ok tid \<Rightarrow>
                  (if taskState = ''completed'' then (Ok task, s1)
                   else if taskState = ''running'' then (Err (TaskStillRunning taskName tid), s1)
                   else (case index task ''messages'' of
                           VSlice messages \<Rightarrow>
                             (if messages = [] then (Err (TaskNoMessages taskName tid), s1)
                              else (Err (TaskFailed taskName tid (fmt_Sprint env (last messages))), s1))
                         | rawMessages \<Rightarrow>
                             (Err (UnexpectedMessageFormat (type_name rawMessages)), s1)))))"

definition time_Sleep :: "int \<Rightarrow> state \<Rightarrow> state" where
  "time_Sleep d s = s\<lparr>clock := clock s + d\<rparr>"

text \<open>
  The polling loop of \<^verbatim>\<open>WaitTask\<close>, by the number of retries left. Any error of an attempt
  leads to the sleep and the next attempt.
\<close>

fun WaitTask_loop :: "env \<Rightarrow> VastResourceEntry \<Rightarrow> int64 \<Rightarrow> nat \<Rightarrow> int \<Rightarrow> int \<Rightarrow> state
    \<Rightarrow> Record res \<times> state" where
  "WaitTask_loop env t taskId 0 interval backoffRate s = (Err TaskDidNotComplete, s)"
| "WaitTask_loop env t taskId (Suc retries) interval backoffRate s =
     (case isTaskComplete env t taskId s of
        (Ok task, s1) \<Rightarrow> (Ok task, s1)
      | (Panic p, s1) \<Rightarrow> (Panic p, s1)
      | (Err _, s1) \<Rightarrow>
          WaitTask_loop env t taskId retries (interval * backoffRate) backoffRate
            (time_Sleep interval s1))"

definition WaitTask :: "env \<Rightarrow> VastResourceEntry \<Rightarrow> int64 \<Rightarrow> state \<Rightarrow> Record res \<times> state" where
  "WaitTask env t taskId s = WaitTask_loop env t taskId 30 (500 * 1000000) 1 s"

section \<open>Construction (rest.go)\<close>

text \<open>
  Modelled from the spec: \<^verbatim>\<open>VMSConfig.Validate\<close> is not among the sources. Of the
  validators \<^verbatim>\<open>NewVMSRest\<close> passes to it, the two that matter here fill in the default
  API version \<open>v5\<close> and the default port 443.
\<close>

definition Validate :: "VMSConfig \<Rightarrow> VMSConfig" where
  "Validate cfg =
     cfg\<lparr>ApiVersion := (if ApiVersion cfg = [] then ''v5'' else ApiVersion cfg),
         Port := (if Port cfg = 0 then 443 else Port cfg)\<rparr>"

definition NewVMSRest :: "VMSConfig \<Rightarrow> state \<Rightarrow> (VMSRest \<times> state) res" where
  "NewVMSRest cfg0 s =
     (let cfg = Validate cfg0
      in case CreateAuthenticator cfg of
           Ok a \<Rightarrow> Ok (\<lparr>Session = \<lparr>config = cfg\<rparr>\<rparr>, s\<lparr>auth := a\<rparr>)
         | Err e \<Rightarrow> Err e
         | Panic p \<Rightarrow> Panic p)"

definition VTasks :: "env \<Rightarrow> VMSRest \<Rightarrow> VastResourceEntry" where
  "VTasks env r = newResource env r ''VTask'' ''vtasks'' dummyClusterVersion"

definition Views :: "env \<Rightarrow> VMSRest \<Rightarrow> VastResourceEntry" where
  "Views env r = newResource env r ''View'' ''views'' dummyClusterVersion"

definition Volumes :: "env \<Rightarrow> VMSRest \<Rightarrow> VastResourceEntry" where
  "Volumes env r = newResource env r ''Volume'' ''volumes'' ''5.3.0''"

section \<open>A plain environment for running the model\<close>

text \<open>
  To run the model on concrete inputs the environment has to be filled in. \<open>plain_env\<close>
  does so for plain inputs: \<open>plain_Sprint\<close> formats strings, nil, booleans and integers
  as \<^verbatim>\<open>fmt.Sprint\<close> does (other values are not formatted by the runs below and print as
  their type name); \<open>plain_JoinPath\<close> and \<open>plain_URL_String\<close> join and print paths whose
  characters need no escaping; \<open>plain_NewVersion\<close> reads dotted decimal versions and
  \<open>plain_Compare\<close> compares them segment by segment; bodies are not marshalled. The
  network is a parameter.
\<close>

fun plain_Sprint :: "val \<Rightarrow> string" where
  "plain_Sprint (VString x) = x"
| "plain_Sprint VNil = ''<nil>''"
| "plain_Sprint (VBool b) = (if b then ''true'' else ''false'')"
| "plain_Sprint (VInt i) = string_of_int (sint i)"
| "plain_Sprint (VInt64 i) = string_of_int (sint i)"
| "plain_Sprint v = type_name v"

fun clean_segments :: "string list \<Rightarrow> string list \<Rightarrow> string list" where
  "clean_segments acc [] = acc"
| "clean_segments acc (x # xs) =
     (if x = [] \<or> x = ''.'' then clean_segments acc xs
      else if x = ''..'' then clean_segments (butlast acc) xs
      else clean_segments (acc @ [x]) xs)"

definition plain_JoinPath :: "string \<Rightarrow> string list \<Rightarrow> string option" where
  "plain_JoinPath base elem =
     Some (strings_Join
             (clean_segments [] (concat (map (\<lambda>e. strings_Split e (CHR ''/'')) (base # elem))))
             ''/'')"

definition plain_URL_String :: "URL \<Rightarrow> string" where
  "plain_URL_String u =
     Scheme u @ ''://'' @ URL_Host u
       @ (if Path u \<noteq> [] \<and> hd (Path u) \<noteq> CHR ''/'' then ''/'' else [])
       @ Path u
       @ (if RawQuery u \<noteq> [] then ''?'' @ RawQuery u else [])"

fun nat_of_digits :: "nat \<Rightarrow> string \<Rightarrow> nat option" where
  "nat_of_digits acc [] = Some acc"
| "nat_of_digits acc (c # cs) =
     (case map_of (zip ''0123456789'' [0, 1, 2, 3, 4, 5, 6, 7, 8, 9]) c of
        None \<Rightarrow> None
      | Some d \<Rightarrow> nat_of_digits (10 * acc + d) cs)"

fun parse_segments :: "string list \<Rightarrow> int list option" where
  "parse_segments [] = Some []"
| "parse_segments (x # xs) =
     (case (if x = [] then None else nat_of_digits 0 x, parse_segments xs) of
        (Some n, Some ns) \<Rightarrow> Some (int n # ns)
      | _ \<Rightarrow> None)"

definition plain_NewVersion :: "string \<Rightarrow> version option" where
  "plain_NewVersion v =
     (case parse_segments (strings_Split v (CHR ''.'')) of
        None \<Rightarrow> None
      | Some segs \<Rightarrow>
          Some \<lparr>segments = segs @ replicate (3 - length segs) 0, pre = [], metadata = []\<rparr>)"

definition plain_Core :: "version \<Rightarrow> version" where
  "plain_Core v = \<lparr>segments = take 3 (segments v), pre = [], metadata = []\<rparr>"

fun compare_segments :: "int list \<Rightarrow> int list \<Rightarrow> int" where
  "compare_segments [] ys = (if list_all (\<lambda>y. y = 0) ys then 0 else - 1)"
| "compare_segments (x # xs) [] = (if list_all (\<lambda>y. y = 0) (x # xs) then 0 else 1)"
| "compare_segments (x # xs) (y # ys) =
     (if x = y then compare_segments xs ys else if x < y then - 1 else 1)"

definition plain_Compare :: "version \<Rightarrow> version \<Rightarrow> int" where
  "plain_Compare v other = compare_segments (segments v) (segments other)"

definition json_field :: "(string \<times> val) list \<Rightarrow> string \<Rightarrow> string option" where
  "json_field m k =
     (case map_of m k of
        None \<Rightarrow> Some []
      | Some VNil \<Rightarrow> Some []
      | Some (VString x) \<Rightarrow> Some x
      | Some _ \<Rightarrow> None)"

definition plain_Unmarshal_jwtToken :: "val option \<Rightarrow> (string \<times> string) option" where
  "plain_Unmarshal_jwtToken body =
     (case body of
        Some VNil \<Rightarrow> Some ([], [])
      | Some (VMap m) \<Rightarrow>
          (case (json_field m ''access'', json_field m ''refresh'') of
             (Some a, Some r) \<Rightarrow> Some (a, r)
           | _ \<Rightarrow> None)
      | _ \<Rightarrow> None)"

definition plain_env :: "(int \<Rightarrow> http_call list \<Rightarrow> http_call \<Rightarrow> nat \<times> http_response option) \<Rightarrow> env" where
  "plain_env net =
     \<lparr>transport = net, fmt_Sprint = plain_Sprint, json_Marshal = (\<lambda>_. None),
      json_Unmarshal_jwtToken = plain_Unmarshal_jwtToken,
      url_JoinPath = plain_JoinPath, url_String = plain_URL_String,
      http_NewRequest = (\<lambda>_ _. True),
      version_NewVersion = plain_NewVersion, version_Core = plain_Core,
      version_Compare = plain_Compare\<rparr>"


definition api_config :: VMSConfig where
  "api_config =
     \<lparr>Host = ''10.27.40.1'', Port = 0, Username = [], Password = [], ApiToken = ''secret'',
      SslVerify = False, ApiVersion = [], BeforeRequestFn = None, AfterRequestFn = None\<rparr>"

definition jwt_config :: VMSConfig where
  "jwt_config =
     \<lparr>Host = ''10.27.40.1'', Port = 0, Username = ''admin'', Password = ''123456'',
      ApiToken = [], SslVerify = False, ApiVersion = [], BeforeRequestFn = None,
      AfterRequestFn = None\<rparr>"

definition start :: state where
  "start = \<lparr>calls = [], clock = 0, auth = ApiRToken [], sysVersion = None\<rparr>"

definition answer :: "int \<Rightarrow> val option \<Rightarrow> int \<Rightarrow> http_call list \<Rightarrow> http_call
    \<Rightarrow> nat \<times> http_response option" where
  "answer code body now history c = (1000000, Some \<lparr>StatusCode = code, Body = body\<rparr>)"

definition unreachable :: "int \<Rightarrow> http_call list \<Rightarrow> http_call \<Rightarrow> nat \<times> http_response option" where
  "unreachable now history c = (1000000, None)"

text \<open>The two sessions of the runs below, as \<open>NewVMSRest\<close> constructs them.\<close>

definition api_rest :: VMSRest where
  "api_rest = \<lparr>Session = \<lparr>config = Validate api_config\<rparr>\<rparr>"

definition api_start :: state where
  "api_start = start\<lparr>auth := ApiRToken ''secret''\<rparr>"

definition jwt_rest :: VMSRest where
  "jwt_rest = \<lparr>Session = \<lparr>config = Validate jwt_config\<rparr>\<rparr>"

definition jwt_start :: state where
  "jwt_start =
     start\<lparr>auth := JWT \<lparr>auth_Username = ''admin'', auth_Password = ''123456'',
                            Token = None, initialized = False\<rparr>\<rparr>"

text \<open>Servers: one that answers every call with an empty list, and so on.\<close>

definition env_empty :: env where
  "env_empty = plain_env (answer 200 (Some (VSlice [])))"

definition env_two :: env where
  "env_two =
     plain_env (answer 200 (Some (VSlice [VMap [(''id'', VFloat64 1)], VMap [(''id'', VFloat64 2)]])))"

definition env_fraction :: env where
  "env_fraction = plain_env (answer 200 (Some (VSlice [VMap [(''id'', VFloat64 (79 / 10))]])))"

definition env_record :: env where
  "env_record = plain_env (answer 200 (Some (VMap [(''id'', VFloat64 7)])))"

definition env_failed_task :: env where
  "env_failed_task =
     plain_env (answer 200 (Some (VMap
       [(''id'', VFloat64 1), (''name'', VString ''t''), (''state'', VString ''FAILED''),
        (''messages'', VSlice [VString ''started'', VString ''boom''])])))"

definition env_denied :: env where
  "env_denied = plain_env (answer 401 None)"

definition env_unreachable :: env where
  "env_unreachable = plain_env unreachable"

definition env_no_version :: env where
  "env_no_version = plain_env (answer 200 (Some (VSlice [VMap [(''sys_version'', VNil)]])))"

definition env_old_cluster :: env where
  "env_old_cluster =
     plain_env (answer 200 (Some (VSlice [VMap [(''sys_version'', VString ''5.2.0.17'')]])))"

definition env_tokens :: env where
  "env_tokens =
     plain_env (answer 200 (Some (VMap [(''access'', VString ''A''), (''refresh'', VString ''R'')])))"

text \<open>The session after its first token exchange with \<open>env_tokens\<close>.\<close>

definition jwt_holder :: JWTAuthenticator where
  "jwt_holder =
     \<lparr>auth_Username = ''admin'', auth_Password = ''123456'',
      Token = Some \<lparr>Access = ''A'', Refresh = ''R'', CreatedAt = 1000000\<rparr>, initialized = True\<rparr>"

definition jwt_authorized :: state where
  "jwt_authorized =
     jwt_start\<lparr>calls := [PostToken ''10.27.40.1:443'' ''admin'' ''123456''],
               clock := 1000000, auth := JWT jwt_holder\<rparr>"

text \<open>An after-request callback that answers every result with a record set.\<close>

definition hooked_rest :: VMSRest where
  "hooked_rest =
     \<lparr>Session = \<lparr>config = (Validate api_config)\<lparr>AfterRequestFn := Some (\<lambda>_. Ok (RRecordSet []))\<rparr>\<rparr>\<rparr>"

lemmas run_defs =
  Get_def Entry_List.simps checkVastResourceVersionCompat.simps CompareWith.simps GetVersion.simps
  cacheVersion_def request_def finish_def bodyReaders_def buildUrl_def vmsMethod_def
  Session_Get_def Session_Post_def Session_Put_def Session_Patch_def Session_Delete_def
  doRequest_def setupHeaders_def SetAuthHeader_def Authorize_def JWT_Authorize_def storeToken_def
  acquireToken_def refreshToken_def parseToken_def json_field_def plain_Unmarshal_jwtToken_def
  validateResponse_def roundtrip_def
  unmarshalToRecordUnion_def setResourceKey_def stamp_def assign_def lookup_def index_def entries_def
  ToQuery_def convertMapToQuery_def url_QueryEscape_def hex_byte_def ToBody_def
  strings_ToUpper_def strings_ToLower_def strings_Trim_def strings_Split_def
  ascii_lower_def ascii_upper_def string_of_nat.simps string_of_int_def resourceTypeKey_def
  interceptable_def entry_doBeforeRequest_def entry_doAfterRequest_def
  newResource_def Versions_def Views_def VTasks_def Volumes_def dummyClusterVersion_def
  T_Record_def T_RecordSet_def T_EmptyRecord_def idPath_def
  plain_env_def plain_JoinPath_def plain_URL_String_def plain_NewVersion_def plain_Core_def
  plain_Compare_def api_config_def jwt_config_def start_def answer_def unreachable_def Validate_def
  Create_def Update_def DeleteById_def GetById_def Delete_def isTaskComplete_def time_Sleep_def
  WaitTask_def TokenRefreshTime_def time_Sub_def CreateAuthenticator_def NewVMSRest_def
  sanitizeVersion_def api_rest_def api_start_def jwt_rest_def jwt_start_def
  env_empty_def env_two_def env_fraction_def env_record_def env_failed_task_def env_denied_def
  env_unreachable_def env_no_version_def env_old_cluster_def env_tokens_def hooked_rest_def

section \<open>Properties of Params\<close>

lemma Params_Update_loop_lookup:
  "distinct (map fst es) \<Longrightarrow>
   \<exists>al'. Params_Update_loop (Some al) es b = Ok (Some al') \<and>
     (\<forall>k. map_of al' k =
        (case map_of es k of
           None \<Rightarrow> map_of al k
         | Some v \<Rightarrow> if map_of al k \<noteq> None \<and> b then map_of al k else Some v))"
proof (induction es arbitrary: al)
  case Nil
  then show ?case by simp
next
  case (Cons entry es)
  obtain key v where entry: "entry = (key, v)" by (cases entry)
  from Cons.prems entry have fresh: "map_of es key = None" and d: "distinct (map fst es)"
    by (auto simp: map_of_eq_None_iff)
  show ?case
  proof (cases "map_of al key \<noteq> None \<and> b")
    case True
    from Cons.IH [OF d, of al] obtain al' where
      "Params_Update_loop (Some al) es b = Ok (Some al')"
      "\<forall>k. map_of al' k =
         (case map_of es k of
            None \<Rightarrow> map_of al k
          | Some v \<Rightarrow> if map_of al k \<noteq> None \<and> b then map_of al k else Some v)"
      by blast
    with True entry fresh show ?thesis
      by (auto simp: lookup_def)
  next
    case False
    from Cons.IH [OF d, of "AList.update key v al"] obtain al' where
      "Params_Update_loop (Some (AList.update key v al)) es b = Ok (Some al')"
      "\<forall>k. map_of al' k =
         (case map_of es k of
            None \<Rightarrow> map_of (AList.update key v al) k
          | Some w \<Rightarrow>
              if map_of (AList.update key v al) k \<noteq> None \<and> b
              then map_of (AList.update key v al) k else Some w)"
      by blast
    with False entry fresh show ?thesis
      by (auto simp: lookup_def assign_def update_conv' split: option.splits)
  qed
qed

text \<open>
  C8, as amended. For every receiver \<open>pr\<close> that is not the nil map, merging \<open>other\<close>
  into it succeeds, and the merged map is described key by key: a key of \<open>other\<close> that
  \<open>pr\<close> lacks is added with the value of \<open>other\<close>; a key of both keeps the value of
  \<open>pr\<close> when the flag is set and takes the value of \<open>other\<close> when it is not; every key
  that \<open>other\<close> lacks is as it was in \<open>pr\<close>. The keys of a map are distinct.
\<close>

theorem Params_Update_merge:
  assumes "pr \<noteq> None" and "distinct (map fst (entries other))"
  shows "\<exists>pr'. Params_Update pr other override = Ok pr' \<and>
     (\<forall>k v. lookup other k = Some v \<and> lookup pr k = None \<longrightarrow> lookup pr' k = Some v) \<and>
     (\<forall>k. lookup other k \<noteq> None \<and> lookup pr k \<noteq> None \<longrightarrow>
          lookup pr' k = (if override then lookup pr k else lookup other k)) \<and>
     (\<forall>k. lookup other k = None \<longrightarrow> lookup pr' k = lookup pr k)"
proof -
  from assms(1) obtain al where pr: "pr = Some al" by auto
  have other: "lookup other = map_of (entries other)"
    by (auto simp: lookup_def entries_def split: option.splits)
  from Params_Update_loop_lookup [OF assms(2), of al override] obtain al' where
    run: "Params_Update_loop (Some al) (entries other) override = Ok (Some al')" and
    look: "\<And>k. map_of al' k =
      (case map_of (entries other) k of
         None \<Rightarrow> map_of al k
       | Some v \<Rightarrow> if map_of al k \<noteq> None \<and> override then map_of al k else Some v)"
    by blast
  have "Params_Update pr other override = Ok (Some al')"
    using run by (simp add: Params_Update_def pr)
  moreover have "\<forall>k v. lookup other k = Some v \<and> lookup pr k = None \<longrightarrow> lookup (Some al') k = Some v"
    by (simp add: other pr lookup_def look)
  moreover have "\<forall>k. lookup other k \<noteq> None \<and> lookup pr k \<noteq> None \<longrightarrow>
      lookup (Some al') k = (if override then lookup pr k else lookup other k)"
    by (auto simp: other pr lookup_def look)
  moreover have "\<forall>k. lookup other k = None \<longrightarrow> lookup (Some al') k = lookup pr k"
    by (simp add: other pr lookup_def look)
  ultimately show ?thesis by blast
qed

theorem Params_Update_merge_witness:
  "Some [(''name'', VString ''a''), (''tenant_id'', VInt 1)] \<noteq> None \<and>
   distinct (map fst (entries (Some [(''name'', VString ''b''), (''nqn'', VString ''n'')]))) \<and>
   (\<exists>pr'. Params_Update (Some [(''name'', VString ''a''), (''tenant_id'', VInt 1)])
             (Some [(''name'', VString ''b''), (''nqn'', VString ''n'')]) True = Ok pr' \<and>
          lookup pr' ''name'' = Some (VString ''a'') \<and>
          lookup pr' ''nqn'' = Some (VString ''n'') \<and>
          lookup pr' ''tenant_id'' = Some (VInt 1))"
  using Params_Update_merge [of "Some [(''name'', VString ''a''), (''tenant_id'', VInt 1)]"
      "Some [(''name'', VString ''b''), (''nqn'', VString ''n'')]" True]
  by (simp add: entries_def lookup_def Params_Update_def assign_def)

text \<open>
  C8, as stated, fails for the nil receiver: the loop writes the first entry of \<open>other\<close>
  into the nil map, which panics, whatever the flag.
\<close>

theorem Params_Update_nil_receiver_panics:
  "Params_Update None (Some [(''nqn'', VString ''n'')]) True = Panic AssignmentToNilMap \<and>
   Params_Update None (Some [(''nqn'', VString ''n'')]) False = Panic AssignmentToNilMap"
  by (simp add: Params_Update_def entries_def lookup_def assign_def)

section \<open>Properties of the CRUD operations\<close>

lemma trunc_bounds:
  "\<bar>of_int (trunc x)\<bar> \<le> \<bar>x\<bar>" "\<bar>x - of_int (trunc x)\<bar> < 1"
proof -
  have f: "of_int \<lfloor>x\<rfloor> \<le> x" "x < of_int \<lfloor>x\<rfloor> + 1" by linarith+
  have c: "x \<le> of_int \<lceil>x\<rceil>" "of_int \<lceil>x\<rceil> < x + 1" by linarith+
  show "\<bar>of_int (trunc x)\<bar> \<le> \<bar>x\<bar>"
  proof (cases "0 \<le> x")
    case True
    then have "(0::rat) \<le> of_int \<lfloor>x\<rfloor>" by simp
    moreover have "trunc x = \<lfloor>x\<rfloor>" using True by (simp add: trunc_def)
    ultimately show ?thesis using True f by linarith
  next
    case False
    then have "\<lceil>x\<rceil> \<le> 0" by (simp add: ceiling_le_iff)
    then have "of_int \<lceil>x\<rceil> \<le> (0::rat)" by simp
    moreover have "trunc x = \<lceil>x\<rceil>" using False by (simp add: trunc_def)
    ultimately show ?thesis using False c by linarith
  qed
  show "\<bar>x - of_int (trunc x)\<bar> < 1"
  proof (cases "0 \<le> x")
    case True
    then have "trunc x = \<lfloor>x\<rfloor>" by (simp add: trunc_def)
    then show ?thesis using f by linarith
  next
    case False
    then have "trunc x = \<lceil>x\<rceil>" by (simp add: trunc_def)
    then show ?thesis using c by linarith
  qed
qed

lemma trunc_in_range:
  assumes "\<bar>x\<bar> < 2 ^ 63"
  shows "- (2 ^ 63) \<le> trunc x \<and> trunc x < 2 ^ 63"
proof -
  have "\<bar>(of_int (trunc x) :: rat)\<bar> < 2 ^ 63"
    using trunc_bounds(1) [of x] assms by linarith
  then have "\<bar>trunc x\<bar> < 2 ^ 63"
    by (metis (mono_tags) of_int_abs of_int_less_iff of_int_numeral of_int_power)
  then show ?thesis by linarith
qed

lemma sint_int64:
  "- (2 ^ 63) \<le> i \<Longrightarrow> i < 2 ^ 63 \<Longrightarrow> sint (word_of_int i :: int64) = i"
  by (simp add: sint_sbintrunc' signed_take_bit_int_eq_self)

lemma Delete_after_Get:
  "Delete env e params s =
     (case Get env e params s of
        (Panic p, s1) \<Rightarrow> (Panic p, s1)
      | (Err err, s1) \<Rightarrow> (if isNotFoundErr err then (Ok (Some []), s1) else (Err err, s1))
      | (Ok result, s1) \<Rightarrow>
          (case lookup result ''id'' of
             None \<Rightarrow> (Err NoIdField, s1)
           | Some idVal \<Rightarrow>
               (case toInt idVal of
                  Err err \<Rightarrow> (Err err, s1)
                | Panic p \<Rightarrow> (Panic p, s1)
                | Ok idInt \<Rightarrow> DeleteById env e idInt s1)))"
  by (simp add: Delete_def)

text \<open>
  C5. When the list request behind a \<open>Get\<close> succeeds with the records \<open>result\<close>, then
  \<open>Get\<close> returns, in the same state: for no record the not-found error, which carries the
  resource path and the encoded query; for one record that record; for two or more the
  error of an ambiguous match, which carries the same two. Only the first is a not-found
  error.
\<close>

theorem Get_by_number_of_matches:
  assumes "Entry_List env e params s = (Ok result, s')"
  shows "(result = [] \<longrightarrow>
            Get env e params s = (Err (NotFoundError (resourcePath e) (ToQuery env params)), s')) \<and>
         (\<forall>r. result = [r] \<longrightarrow> Get env e params s = (Ok r, s')) \<and>
         (2 \<le> length result \<longrightarrow>
            Get env e params s =
              (Err (MoreThanOneResource (resourcePath e) (ToQuery env params)), s')) \<and>
         isNotFoundErr (NotFoundError (resourcePath e) (ToQuery env params)) \<and>
         \<not> isNotFoundErr (MoreThanOneResource (resourcePath e) (ToQuery env params))"
proof -
  from assms obtain s1 where
    gate: "checkVastResourceVersionCompat env e s = (Ok (), s1)" and
    req: "request T_RecordSet env (interceptable e) ''GET'' (resourcePath e) (apiVersion e)
            params None s1 = (Ok result, s')"
    by (auto simp: Entry_List.simps split: prod.splits res.splits)
  have "Get env e params s =
     (case result of
        [] \<Rightarrow> (Err (NotFoundError (resourcePath e) (ToQuery env params)), s')
      | [r] \<Rightarrow> (Ok r, s')
      | _ \<Rightarrow> (Err (MoreThanOneResource (resourcePath e) (ToQuery env params)), s'))"
    by (simp add: Get_def gate req)
  then show ?thesis
    by (cases result; cases "tl result") auto
qed

theorem Get_by_number_of_matches_witness:
  "Entry_List env_two (Views env_two api_rest) (Some [(''path__endswith'', VString ''view'')]) api_start =
     (Ok [Some [(''id'', VFloat64 1), (''@resourceType'', VString ''View'')],
          Some [(''id'', VFloat64 2), (''@resourceType'', VString ''View'')]],
      api_start\<lparr>calls := [Do ''GET'' ''https://10.27.40.1:443/api/views?path__endswith=view'' []
                               ''Api-Token secret''],
                 clock := 1000000\<rparr>) \<and>
   Get env_two (Views env_two api_rest) (Some [(''path__endswith'', VString ''view'')]) api_start =
     (Err (MoreThanOneResource ''views'' ''path__endswith=view''),
      api_start\<lparr>calls := [Do ''GET'' ''https://10.27.40.1:443/api/views?path__endswith=view'' []
                               ''Api-Token secret''],
                 clock := 1000000\<rparr>)"
  using Get_by_number_of_matches [of env_two "Views env_two api_rest"
      "Some [(''path__endswith'', VString ''view'')]" api_start
      "[Some [(''id'', VFloat64 1), (''@resourceType'', VString ''View'')],
        Some [(''id'', VFloat64 2), (''@resourceType'', VString ''View'')]]"
      "api_start\<lparr>calls := [Do ''GET'' ''https://10.27.40.1:443/api/views?path__endswith=view'' []
                               ''Api-Token secret''],
                 clock := 1000000\<rparr>"]
  by (simp add: run_defs)



text \<open>
  C10. An \<open>id\<close> that is a float with a fractional part is not rejected. Such a float lies
  within the range of \<^verbatim>\<open>int64\<close>; the conversion yields its integer part, which is nearer
  to zero than the float and less than one away from it, and \<open>Delete\<close> calls
  \<open>DeleteById\<close> with that integer.
\<close>

theorem fractional_id_is_truncated:
  assumes "x \<notin> \<int>" and "\<bar>x\<bar> < 2 ^ 63"
  shows "toInt (VFloat64 x) = Ok (word_of_int (trunc x)) \<and>
         sint (word_of_int (trunc x) :: int64) = trunc x \<and>
         \<bar>of_int (trunc x)\<bar> < \<bar>x\<bar> \<and> \<bar>x - of_int (trunc x)\<bar> < 1 \<and>
         (Get env e params s = (Ok result, s1) \<and> lookup result ''id'' = Some (VFloat64 x) \<longrightarrow>
            Delete env e params s = DeleteById env e (word_of_int (trunc x)) s1)"
proof -
  note r = trunc_in_range [OF assms(2)]
  have conv: "int64_of_float64 x = word_of_int (trunc x)"
    using r by (simp add: int64_of_float64_def)
  have ne: "(of_int (trunc x) :: rat) \<noteq> x"
    using assms(1) by (metis Ints_of_int)
  have "\<bar>of_int (trunc x)\<bar> < \<bar>x\<bar>"
  proof (cases "0 \<le> x")
    case True
    then have "(0::rat) \<le> of_int \<lfloor>x\<rfloor>" by simp
    moreover have "trunc x = \<lfloor>x\<rfloor>" using True by (simp add: trunc_def)
    moreover have "of_int \<lfloor>x\<rfloor> \<le> x" by linarith
    ultimately show ?thesis using True ne by linarith
  next
    case False
    then have "\<lceil>x\<rceil> \<le> 0" by (simp add: ceiling_le_iff)
    then have "of_int \<lceil>x\<rceil> \<le> (0::rat)" by simp
    moreover have "trunc x = \<lceil>x\<rceil>" using False by (simp add: trunc_def)
    moreover have "x \<le> of_int \<lceil>x\<rceil>" by linarith
    ultimately show ?thesis using False ne by linarith
  qed
  then show ?thesis
    using r trunc_bounds(2) [of x] by (auto simp: conv sint_int64 Delete_after_Get)
qed

theorem fractional_id_is_truncated_witness:
  "(79 / 10 :: rat) \<notin> \<int> \<and> \<bar>79 / 10 :: rat\<bar> < 2 ^ 63 \<and>
   toInt (VFloat64 (79 / 10)) = Ok 7 \<and>
   Delete env_fraction (Views env_fraction api_rest) (Some [(''name'', VString ''x'')]) api_start =
     (Ok None,
      api_start\<lparr>calls := [Do ''GET'' ''https://10.27.40.1:443/api/views?name=x'' [] ''Api-Token secret'',
                           Do ''DELETE'' ''https://10.27.40.1:443/api/views/7'' [] ''Api-Token secret''],
                 clock := 2000000\<rparr>)"
proof -
  let ?found = "Some [(''id'', VFloat64 (79 / 10)), (''@resourceType'', VString ''View'')]"
  let ?s1 = "api_start\<lparr>calls := [Do ''GET'' ''https://10.27.40.1:443/api/views?name=x'' []
                                     ''Api-Token secret''],
                       clock := 1000000\<rparr>"
  have frac: "(79 / 10 :: rat) \<notin> \<int>"
  proof
    assume "(79 / 10 :: rat) \<in> \<int>"
    then obtain k :: int where "(79 / 10 :: rat) = of_int k" by (auto elim: Ints_cases)
    then have "(79 :: rat) = of_int (10 * k)" by simp
    then have "(79 :: int) = 10 * k" by (metis of_int_eq_iff of_int_numeral)
    then show False by presburger
  qed
  have bound: "\<bar>79 / 10 :: rat\<bar> < 2 ^ 63" by simp
  have "\<lfloor>79 / 10 :: rat\<rfloor> = 7" by (rule floor_unique) simp_all
  then have t: "trunc (79 / 10) = 7" by (simp add: trunc_def)
  have found: "Get env_fraction (Views env_fraction api_rest) (Some [(''name'', VString ''x'')])
      api_start = (Ok ?found, ?s1)"
    by (simp add: run_defs)
  have ident: "lookup ?found ''id'' = Some (VFloat64 (79 / 10))"
    by (simp add: lookup_def)
  have byId: "DeleteById env_fraction (Views env_fraction api_rest) 7 ?s1 =
     (Ok None,
      api_start\<lparr>calls := [Do ''GET'' ''https://10.27.40.1:443/api/views?name=x'' [] ''Api-Token secret'',
                           Do ''DELETE'' ''https://10.27.40.1:443/api/views/7'' [] ''Api-Token secret''],
                 clock := 2000000\<rparr>)"
    by (simp add: run_defs)
  from fractional_id_is_truncated [OF frac bound, of env_fraction "Views env_fraction api_rest"
      "Some [(''name'', VString ''x'')]" api_start ?found ?s1] found ident
  have "toInt (VFloat64 (79 / 10)) = Ok (word_of_int (trunc (79 / 10)))"
    and "Delete env_fraction (Views env_fraction api_rest) (Some [(''name'', VString ''x'')])
      api_start = DeleteById env_fraction (Views env_fraction api_rest) (word_of_int (trunc (79 / 10))) ?s1"
    by blast+
  then show ?thesis
    using frac bound byId by (simp only: t) simp
qed

section \<open>Properties of the version gate\<close>

lemma GetVersion_caches:
  "GetVersion env v s = (Ok cv, s1) \<Longrightarrow> sysVersion s1 = Some cv"
  by (auto simp: GetVersion.simps cacheVersion_def
      split: option.splits prod.splits res.splits list.splits val.splits)

lemma GetVersion_cached:
  "sysVersion s = Some cv \<Longrightarrow> GetVersion env v s = (Ok cv, s)"
  by (simp add: GetVersion.simps)

lemma gate_decides:
  assumes "availableFromVersion e = Some minVersion"
    and "GetVersion env (Versions env (rest e)) s = (Ok clusterVersion, s1)"
  shows "checkVastResourceVersionCompat env e s =
     (if version_Compare env clusterVersion minVersion = - 1
      then Err (NotSupportedInVersion (resourceType e) (Some clusterVersion) minVersion)
      else Ok (), s1)"
  using assms GetVersion_cached [OF GetVersion_caches [OF assms(2)], of env "Versions env (rest e)"]
  by (simp add: checkVastResourceVersionCompat.simps CompareWith.simps)

lemma gate_fails:
  assumes "availableFromVersion e = Some minVersion"
    and "GetVersion env (Versions env (rest e)) s = (Err err, s1)"
  shows "checkVastResourceVersionCompat env e s = (Err err, s1)"
  using assms by (simp add: checkVastResourceVersionCompat.simps CompareWith.simps)

lemma gate_blocks:
  assumes "checkVastResourceVersionCompat env e s = (Err err, s1)"
  shows "Entry_List env e params s = (Err err, s1)"
    and "Get env e params s = (Err err, s1)"
    and "GetById env e i s = (Err err, s1)"
    and "Create env e body s = (Err err, s1)"
    and "Update env e i body s = (Err err, s1)"
    and "DeleteById env e i s = (Err err, s1)"
  using assms
  by (simp_all add: Entry_List.simps Get_def GetById_def Create_def Update_def DeleteById_def)

text \<open>
  C4. An entry without a minimum version passes the gate in the state it came in, so no
  call is made. For an entry with a minimum version, once the version resource has given
  the cluster version (from the cache or by a lookup), the gate rejects with the
  version-incompatible error, naming the resource type, the cluster version and the
  minimum, exactly when the comparison of the cluster version with the minimum is \<open>-1\<close>,
  and passes otherwise; when the version cannot be obtained the gate returns that error.
  An operation stopped by the gate returns the gate's error in the state the gate left:
  it makes no call of its own.
\<close>

theorem version_gate:
  "(availableFromVersion e = None \<longrightarrow> checkVastResourceVersionCompat env e s = (Ok (), s)) \<and>
   (availableFromVersion e = Some minVersion \<and>
    GetVersion env (Versions env (rest e)) s = (Ok clusterVersion, s1) \<longrightarrow>
      checkVastResourceVersionCompat env e s =
        (if version_Compare env clusterVersion minVersion = - 1
         then Err (NotSupportedInVersion (resourceType e) (Some clusterVersion) minVersion)
         else Ok (), s1)) \<and>
   (availableFromVersion e = Some minVersion \<and>
    GetVersion env (Versions env (rest e)) s = (Err err, s1) \<longrightarrow>
      checkVastResourceVersionCompat env e s = (Err err, s1)) \<and>
   (checkVastResourceVersionCompat env e s = (Err (NotSupportedInVersion t cv m), s1) \<longrightarrow>
      Entry_List env e params s = (Err (NotSupportedInVersion t cv m), s1) \<and>
      Get env e params s = (Err (NotSupportedInVersion t cv m), s1) \<and>
      GetById env e i s = (Err (NotSupportedInVersion t cv m), s1) \<and>
      Create env e body s = (Err (NotSupportedInVersion t cv m), s1) \<and>
      Update env e i body s = (Err (NotSupportedInVersion t cv m), s1) \<and>
      DeleteById env e i s = (Err (NotSupportedInVersion t cv m), s1) \<and>
      Delete env e params s = (Err (NotSupportedInVersion t cv m), s1))"
proof (intro conjI impI)
  assume "availableFromVersion e = None"
  then show "checkVastResourceVersionCompat env e s = (Ok (), s)"
    by (simp add: checkVastResourceVersionCompat.simps)
next
  assume "availableFromVersion e = Some minVersion \<and>
    GetVersion env (Versions env (rest e)) s = (Ok clusterVersion, s1)"
  then show "checkVastResourceVersionCompat env e s =
        (if version_Compare env clusterVersion minVersion = - 1
         then Err (NotSupportedInVersion (resourceType e) (Some clusterVersion) minVersion)
         else Ok (), s1)"
    by (simp add: gate_decides)
next
  assume "availableFromVersion e = Some minVersion \<and>
    GetVersion env (Versions env (rest e)) s = (Err err, s1)"
  then show "checkVastResourceVersionCompat env e s = (Err err, s1)"
    by (simp add: gate_fails)
next
  assume rejected: "checkVastResourceVersionCompat env e s = (Err (NotSupportedInVersion t cv m), s1)"
  note blocked = gate_blocks [OF rejected]
  show "Entry_List env e params s = (Err (NotSupportedInVersion t cv m), s1)" by (rule blocked)
  show "Get env e params s = (Err (NotSupportedInVersion t cv m), s1)" by (rule blocked)
  show "GetById env e i s = (Err (NotSupportedInVersion t cv m), s1)" by (rule blocked)
  show "Create env e body s = (Err (NotSupportedInVersion t cv m), s1)" by (rule blocked)
  show "Update env e i body s = (Err (NotSupportedInVersion t cv m), s1)" by (rule blocked)
  show "DeleteById env e i s = (Err (NotSupportedInVersion t cv m), s1)" by (rule blocked)
  show "Delete env e params s = (Err (NotSupportedInVersion t cv m), s1)"
    by (simp add: Delete_def blocked(2))
qed

theorem version_gate_witness:
  "checkVastResourceVersionCompat env_old_cluster (Views env_old_cluster api_rest) api_start =
     (Ok (), api_start) \<and>
   GetVersion env_old_cluster (Versions env_old_cluster api_rest) api_start =
     (Ok \<lparr>segments = [5, 2, 0], pre = [], metadata = []\<rparr>,
      api_start\<lparr>calls := [Do ''GET'' ''https://10.27.40.1:443/api/versions?status=success'' []
                              ''Api-Token secret''],
                 clock := 1000000,
                 sysVersion := Some \<lparr>segments = [5, 2, 0], pre = [], metadata = []\<rparr>\<rparr>) \<and>
   Entry_List env_old_cluster (Volumes env_old_cluster api_rest) None api_start =
     (Err (NotSupportedInVersion ''Volume'' (Some \<lparr>segments = [5, 2, 0], pre = [], metadata = []\<rparr>)
            \<lparr>segments = [5, 3, 0], pre = [], metadata = []\<rparr>),
      api_start\<lparr>calls := [Do ''GET'' ''https://10.27.40.1:443/api/versions?status=success'' []
                              ''Api-Token secret''],
                 clock := 1000000,
                 sysVersion := Some \<lparr>segments = [5, 2, 0], pre = [], metadata = []\<rparr>\<rparr>)"
proof -
  let ?cluster = "\<lparr>segments = [5, 2, 0], pre = [], metadata = []\<rparr>"
  let ?minimum = "\<lparr>segments = [5, 3, 0], pre = [], metadata = []\<rparr>"
  let ?s1 = "api_start\<lparr>calls := [Do ''GET'' ''https://10.27.40.1:443/api/versions?status=success'' []
                              ''Api-Token secret''],
                 clock := 1000000, sysVersion := Some ?cluster\<rparr>"
  have none: "availableFromVersion (Views env_old_cluster api_rest) = None"
    by (simp add: run_defs)
  have some: "availableFromVersion (Volumes env_old_cluster api_rest) = Some ?minimum"
    by (simp add: run_defs)
  have r: "rest (Volumes env_old_cluster api_rest) = api_rest"
    "resourceType (Volumes env_old_cluster api_rest) = ''Volume''"
    by (simp_all add: run_defs)
  have fetched: "GetVersion env_old_cluster (Versions env_old_cluster api_rest) api_start =
      (Ok ?cluster, ?s1)"
    by (simp add: run_defs)
  have less: "version_Compare env_old_cluster ?cluster ?minimum = - 1"
    by (simp add: run_defs)
  from version_gate [where e = "Views env_old_cluster api_rest" and env = env_old_cluster
      and s = api_start] none
  have open_gate: "checkVastResourceVersionCompat env_old_cluster (Views env_old_cluster api_rest)
      api_start = (Ok (), api_start)"
    by blast
  from version_gate [where e = "Volumes env_old_cluster api_rest" and env = env_old_cluster
      and s = api_start and minVersion = ?minimum and clusterVersion = ?cluster and ?s1.0 = ?s1]
    some fetched less r
  have rejected: "checkVastResourceVersionCompat env_old_cluster (Volumes env_old_cluster api_rest)
      api_start = (Err (NotSupportedInVersion ''Volume'' (Some ?cluster) ?minimum), ?s1)"
    by simp
  from version_gate [where e = "Volumes env_old_cluster api_rest" and env = env_old_cluster
      and s = api_start and ?s1.0 = ?s1 and t = "''Volume''" and cv = "Some ?cluster"
      and m = ?minimum and params = None] rejected
  have "Entry_List env_old_cluster (Volumes env_old_cluster api_rest) None api_start =
      (Err (NotSupportedInVersion ''Volume'' (Some ?cluster) ?minimum), ?s1)"
    by blast
  with open_gate fetched show ?thesis by simp
qed

section \<open>Properties of the authenticator\<close>

lemma expired_iff:
  "(TokenRefreshTime \<le> time_Sub t u) = (TokenRefreshTime \<le> t - u)"
  by (simp add: time_Sub_def TokenRefreshTime_def min_def max_def)

lemma storeToken_calls: "calls (snd (storeToken env a resp s)) = calls s"
  by (auto simp: storeToken_def split: prod.splits option.splits res.splits)

lemma storeToken_Ok:
  "storeToken env a resp s = (Ok u, s') \<Longrightarrow>
     \<exists>tok. s' = s\<lparr>auth := JWT (a\<lparr>Token := Some tok\<rparr>)\<rparr>"
  by (auto simp: storeToken_def split: prod.splits option.splits res.splits)

lemma storeToken_keeps:
  "initialized a \<Longrightarrow> Token a \<noteq> None \<Longrightarrow> token_stored (snd (storeToken env a resp s))"
  by (auto simp: storeToken_def token_stored_def split: prod.splits option.splits res.splits)

lemma first_Authorize:
  assumes "auth s0 = JWT a0" and "\<not> initialized a0" and "Authorize env cfg s0 = (Ok (), s1)"
  shows "calls s1 = calls s0 @
           [PostToken (Host cfg @ '':'' @ string_of_nat (unat (Port cfg))) (Username cfg) (Password cfg)]"
    and "token_stored s1"
proof -
  obtain resp s' where acq: "acquireToken env cfg s0 = (resp, s')"
    by (cases "acquireToken env cfg s0")
  then have calls': "calls s' = calls s0 @
      [PostToken (Host cfg @ '':'' @ string_of_nat (unat (Port cfg))) (Username cfg) (Password cfg)]"
    by (auto simp: acquireToken_def roundtrip_def split: prod.splits)
  from assms acq have st: "storeToken env (a0\<lparr>initialized := True\<rparr>) resp s' = (Ok (), s1)"
    by (simp add: Authorize_def JWT_Authorize_def)
  from storeToken_calls [of env "a0\<lparr>initialized := True\<rparr>" resp s'] st calls'
  show "calls s1 = calls s0 @
      [PostToken (Host cfg @ '':'' @ string_of_nat (unat (Port cfg))) (Username cfg) (Password cfg)]"
    by simp
  from storeToken_Ok [OF st] show "token_stored s1"
    by (auto simp: token_stored_def)
qed

lemma Authorize_keeps_token:
  assumes "token_stored s"
  shows "token_stored (snd (Authorize env cfg s))"
proof -
  from assms obtain a tok where a: "auth s = JWT a" "initialized a" "Token a = Some tok"
    by (auto simp: token_stored_def split: Authenticator.splits)
  show ?thesis
  proof (cases "TokenRefreshTime \<le> time_Sub (clock s) (CreatedAt tok)")
    case False
    with a assms show ?thesis by (simp add: Authorize_def JWT_Authorize_def)
  next
    case True
    obtain resp s' where "refreshToken env cfg tok s = (resp, s')"
      by (cases "refreshToken env cfg tok s")
    with True a storeToken_keeps [of a env resp s'] show ?thesis
      by (simp add: Authorize_def JWT_Authorize_def)
  qed
qed

lemma fresh_token_no_call:
  assumes "auth s = JWT a" "initialized a" "Token a = Some tok"
    and "clock s - CreatedAt tok < TokenRefreshTime"
  shows "Authorize env cfg s = (Ok (), s)"
  using assms by (simp add: Authorize_def JWT_Authorize_def expired_iff)

lemma stale_token_one_refresh:
  assumes "auth s = JWT a" "initialized a" "Token a = Some tok"
    and "TokenRefreshTime \<le> clock s - CreatedAt tok"
  shows "calls (snd (Authorize env cfg s)) = calls s @ [PostTokenRefresh (Host cfg) (Refresh tok)]"
proof -
  obtain resp s' where r: "refreshToken env cfg tok s = (resp, s')"
    by (cases "refreshToken env cfg tok s")
  then have "calls s' = calls s @ [PostTokenRefresh (Host cfg) (Refresh tok)]"
    by (auto simp: refreshToken_def roundtrip_def split: prod.splits)
  with assms r storeToken_calls [of env a resp s'] show ?thesis
    by (simp add: Authorize_def JWT_Authorize_def expired_iff)
qed

text \<open>
  C7. On a session with the token-exchange authenticator: a first \<open>Authorize\<close> that
  succeeds has made exactly one call, the acquisition, and leaves a token stored; every
  later \<open>Authorize\<close> keeps a token stored; with a token stored, an \<open>Authorize\<close> at less
  than \<open>TokenRefreshTime\<close> (ten minutes) after the creation of the token returns success
  and leaves the whole state, the calls and the token included, as it was; and an
  \<open>Authorize\<close> at or after that threshold makes exactly one call, the refresh exchange
  with the stored refresh value.
\<close>

theorem token_lifecycle:
  "(auth s0 = JWT a0 \<and> \<not> initialized a0 \<and> Authorize env cfg s0 = (Ok (), s1) \<longrightarrow>
      calls s1 = calls s0 @
        [PostToken (Host cfg @ '':'' @ string_of_nat (unat (Port cfg))) (Username cfg) (Password cfg)] \<and>
      token_stored s1) \<and>
   (token_stored s \<longrightarrow> token_stored (snd (Authorize env cfg s))) \<and>
   (auth s = JWT a \<and> initialized a \<and> Token a = Some tok \<and>
    clock s - CreatedAt tok < TokenRefreshTime \<longrightarrow>
      Authorize env cfg s = (Ok (), s)) \<and>
   (auth s = JWT a \<and> initialized a \<and> Token a = Some tok \<and>
    TokenRefreshTime \<le> clock s - CreatedAt tok \<longrightarrow>
      calls (snd (Authorize env cfg s)) = calls s @ [PostTokenRefresh (Host cfg) (Refresh tok)])"
  using first_Authorize [of s0 a0 env cfg s1] Authorize_keeps_token [of s env cfg]
    fresh_token_no_call [of s a tok env cfg] stale_token_one_refresh [of s a tok env cfg]
  by blast

theorem token_lifecycle_witness:
  "Authorize env_tokens (Validate jwt_config) jwt_start = (Ok (), jwt_authorized) \<and>
   calls jwt_authorized = calls jwt_start @ [PostToken ''10.27.40.1:443'' ''admin'' ''123456''] \<and>
   Authorize env_tokens (Validate jwt_config) (time_Sleep (9 * 60 * 1000000000) jwt_authorized) =
     (Ok (), time_Sleep (9 * 60 * 1000000000) jwt_authorized) \<and>
   calls (snd (Authorize env_tokens (Validate jwt_config)
                 (time_Sleep (10 * 60 * 1000000000) jwt_authorized))) =
     [PostToken ''10.27.40.1:443'' ''admin'' ''123456'', PostTokenRefresh ''10.27.40.1'' ''R'']"
proof -
  let ?cfg = "Validate jwt_config"
  let ?tok = "\<lparr>Access = ''A'', Refresh = ''R'', CreatedAt = 1000000\<rparr>"
  let ?fresh = "\<lparr>auth_Username = ''admin'', auth_Password = ''123456'',
      Token = None, initialized = False\<rparr>"
  let ?early = "time_Sleep (9 * 60 * 1000000000) jwt_authorized"
  let ?late = "time_Sleep (10 * 60 * 1000000000) jwt_authorized"
  have first: "Authorize env_tokens ?cfg jwt_start = (Ok (), jwt_authorized)"
    by (simp add: run_defs jwt_authorized_def jwt_holder_def)
  have fresh: "auth jwt_start = JWT ?fresh" "\<not> initialized ?fresh"
    by (simp_all add: run_defs)
  have server: "Host ?cfg @ '':'' @ string_of_nat (unat (Port ?cfg)) = ''10.27.40.1:443''"
    "Username ?cfg = ''admin''" "Password ?cfg = ''123456''" "Host ?cfg = ''10.27.40.1''"
    by (simp_all add: run_defs)
  have early: "auth ?early = JWT jwt_holder" "clock ?early - CreatedAt ?tok < TokenRefreshTime"
    by (simp_all add: run_defs jwt_authorized_def)
  have late: "auth ?late = JWT jwt_holder" "TokenRefreshTime \<le> clock ?late - CreatedAt ?tok"
    "calls ?late = [PostToken ''10.27.40.1:443'' ''admin'' ''123456'']"
    by (simp_all add: run_defs jwt_authorized_def)
  have h: "initialized jwt_holder" "Token jwt_holder = Some ?tok" "Refresh ?tok = ''R''"
    by (simp_all add: jwt_holder_def)
  note life = token_lifecycle [where env = env_tokens and cfg = ?cfg and ?s0.0 = jwt_start
      and ?a0.0 = ?fresh and ?s1.0 = jwt_authorized and a = jwt_holder and tok = ?tok]
  from life [where s = ?early] first fresh
  have "calls jwt_authorized = calls jwt_start @
      [PostToken (Host ?cfg @ '':'' @ string_of_nat (unat (Port ?cfg))) (Username ?cfg) (Password ?cfg)]"
    by blast
  then have one: "calls jwt_authorized = calls jwt_start @
      [PostToken ''10.27.40.1:443'' ''admin'' ''123456'']"
    by (simp only: server(1,2,3))
  from life [where s = ?early] early h
  have none: "Authorize env_tokens ?cfg ?early = (Ok (), ?early)"
    by blast
  from life [where s = ?late] late(1,2) h
  have "calls (snd (Authorize env_tokens ?cfg ?late)) =
      calls ?late @ [PostTokenRefresh (Host ?cfg) (Refresh ?tok)]"
    by blast
  then have "calls (snd (Authorize env_tokens ?cfg ?late)) =
      [PostToken ''10.27.40.1:443'' ''admin'' ''123456'', PostTokenRefresh ''10.27.40.1'' ''R'']"
    by (simp only: late(3) server(4) h append_Cons append_Nil)
  with first one none show ?thesis by blast
qed

section \<open>Properties of the dispatcher\<close>

lemma request_with_hook:
  assumes plain: "request T env (r\<lparr>doAfterRequest := Ok\<rparr>) verb path apiVer params body s = (Ok x, s1)"
    and inverse: "\<And>v y. assertT T v = Some y \<Longrightarrow> toRenderable T y = v"
  shows "request T env r verb path apiVer params body s =
     (case doAfterRequest r (toRenderable T x) of
        Err e \<Rightarrow> Err e
      | Panic p \<Rightarrow> Panic p
      | Ok v \<Rightarrow> (case assertT T v of None \<Rightarrow> Panic InterfaceConversion | Some y \<Rightarrow> Ok y), s1)"
proof -
  from plain obtain send d cb url response u where
    steps: "vmsMethod (strings_ToUpper verb) = Some send"
      "bodyReaders env body = Ok (d, cb)"
      "buildUrl env (getSession r) path (if params \<noteq> None then ToQuery env params else []) apiVer = Ok url"
      "doBeforeRequest r (strings_ToUpper verb) url cb = Ok u"
      "send env (getSession r) url d s = (Ok response, s1)"
    and fin: "finish T (r\<lparr>doAfterRequest := Ok\<rparr>) response = Ok x"
    by (auto simp: request_def Let_def split: option.splits res.splits prod.splits)
  from fin obtain result tagged where
    dec: "unmarshalToRecordUnion (shape T) response = Ok result"
      "setResourceKey result (GetResourceType r) = Ok tagged"
      "assertT T tagged = Some x"
    by (auto simp: finish_def split: option.splits res.splits)
  from inverse [OF dec(3)] have "toRenderable T x = tagged" .
  with dec have "finish T r response =
     (case doAfterRequest r (toRenderable T x) of
        Err e \<Rightarrow> Err e
      | Panic p \<Rightarrow> Panic p
      | Ok v \<Rightarrow> (case assertT T v of None \<Rightarrow> Panic InterfaceConversion | Some y \<Rightarrow> Ok y))"
    by (simp add: finish_def)
  with steps show ?thesis
    by (simp add: request_def Let_def)
qed

lemma T_Record_fields:
  "toRenderable T_Record = RRecord"
  "assertT T_Record v = (case v of RRecord y \<Rightarrow> Some y | _ \<Rightarrow> None)"
  by (simp_all add: T_Record_def)

lemma T_RecordSet_fields:
  "toRenderable T_RecordSet = RRecordSet"
  "assertT T_RecordSet v = (case v of RRecordSet y \<Rightarrow> Some y | _ \<Rightarrow> None)"
  by (simp_all add: T_RecordSet_def)

lemma T_EmptyRecord_fields:
  "toRenderable T_EmptyRecord = REmptyRecord"
  "assertT T_EmptyRecord v = (case v of REmptyRecord y \<Rightarrow> Some y | _ \<Rightarrow> None)"
  by (simp_all add: T_EmptyRecord_def)

lemma request_Record_with_hook:
  assumes "request T_Record env (r\<lparr>doAfterRequest := Ok\<rparr>) verb path apiVer params body s = (Ok x, s1)"
    and "doAfterRequest r (RRecord x) = Ok v"
  shows "request T_Record env r verb path apiVer params body s =
     (case v of RRecord y \<Rightarrow> Ok y | _ \<Rightarrow> Panic InterfaceConversion, s1)"
proof -
  have "\<And>v y. assertT T_Record v = Some y \<Longrightarrow> toRenderable T_Record y = v"
    by (auto simp: T_Record_fields split: Renderable.splits)
  from request_with_hook [OF assms(1) this] assms(2) show ?thesis
    by (cases v) (simp_all add: T_Record_fields)
qed

lemma request_RecordSet_with_hook:
  assumes "request T_RecordSet env (r\<lparr>doAfterRequest := Ok\<rparr>) verb path apiVer params body s = (Ok x, s1)"
    and "doAfterRequest r (RRecordSet x) = Ok v"
  shows "request T_RecordSet env r verb path apiVer params body s =
     (case v of RRecordSet y \<Rightarrow> Ok y | _ \<Rightarrow> Panic InterfaceConversion, s1)"
proof -
  have "\<And>v y. assertT T_RecordSet v = Some y \<Longrightarrow> toRenderable T_RecordSet y = v"
    by (auto simp: T_RecordSet_fields split: Renderable.splits)
  from request_with_hook [OF assms(1) this] assms(2) show ?thesis
    by (cases v) (simp_all add: T_RecordSet_fields)
qed

lemma request_EmptyRecord_with_hook:
  assumes "request T_EmptyRecord env (r\<lparr>doAfterRequest := Ok\<rparr>) verb path apiVer params body s = (Ok x, s1)"
    and "doAfterRequest r (REmptyRecord x) = Ok v"
  shows "request T_EmptyRecord env r verb path apiVer params body s =
     (case v of REmptyRecord y \<Rightarrow> Ok y | _ \<Rightarrow> Panic InterfaceConversion, s1)"
proof -
  have "\<And>v y. assertT T_EmptyRecord v = Some y \<Longrightarrow> toRenderable T_EmptyRecord y = v"
    by (auto simp: T_EmptyRecord_fields split: Renderable.splits)
  from request_with_hook [OF assms(1) this] assms(2) show ?thesis
    by (cases v) (simp_all add: T_EmptyRecord_fields)
qed

text \<open>
  C9. Take a call of the dispatcher that, with an after-request interceptor that returns
  its argument, succeeds with the result \<open>x\<close>. With an interceptor that answers \<open>x\<close>,
  without error, by a value that is not of the type the call site expects (a record set,
  an empty record, nil or anything else where a record is expected, and likewise for the
  other two types), the same call panics on the type assertion, in the state after the HTTP
  call. With an interceptor that answers by a value of the expected type, the call returns
  that value.
\<close>

theorem after_hook_wrong_shape_panics:
  "(request T_Record env (r\<lparr>doAfterRequest := Ok\<rparr>) verb path apiVer params body s = (Ok x, s1) \<and>
    doAfterRequest r (RRecord x) = Ok v \<and> (\<forall>y. v \<noteq> RRecord y) \<longrightarrow>
      request T_Record env r verb path apiVer params body s = (Panic InterfaceConversion, s1)) \<and>
   (request T_RecordSet env (r\<lparr>doAfterRequest := Ok\<rparr>) verb path apiVer params body s = (Ok xs, s1) \<and>
    doAfterRequest r (RRecordSet xs) = Ok v \<and> (\<forall>y. v \<noteq> RRecordSet y) \<longrightarrow>
      request T_RecordSet env r verb path apiVer params body s = (Panic InterfaceConversion, s1)) \<and>
   (request T_EmptyRecord env (r\<lparr>doAfterRequest := Ok\<rparr>) verb path apiVer params body s = (Ok x, s1) \<and>
    doAfterRequest r (REmptyRecord x) = Ok v \<and> (\<forall>y. v \<noteq> REmptyRecord y) \<longrightarrow>
      request T_EmptyRecord env r verb path apiVer params body s = (Panic InterfaceConversion, s1)) \<and>
   (request T_Record env (r\<lparr>doAfterRequest := Ok\<rparr>) verb path apiVer params body s = (Ok x, s1) \<and>
    doAfterRequest r (RRecord x) = Ok (RRecord x') \<longrightarrow>
      request T_Record env r verb path apiVer params body s = (Ok x', s1))"
proof (intro conjI impI)
  assume "request T_Record env (r\<lparr>doAfterRequest := Ok\<rparr>) verb path apiVer params body s = (Ok x, s1) \<and>
    doAfterRequest r (RRecord x) = Ok v \<and> (\<forall>y. v \<noteq> RRecord y)"
  then show "request T_Record env r verb path apiVer params body s = (Panic InterfaceConversion, s1)"
    using request_Record_with_hook [of env r verb path apiVer params body s x s1 v]
    by (cases v) auto
next
  assume "request T_RecordSet env (r\<lparr>doAfterRequest := Ok\<rparr>) verb path apiVer params body s = (Ok xs, s1) \<and>
    doAfterRequest r (RRecordSet xs) = Ok v \<and> (\<forall>y. v \<noteq> RRecordSet y)"
  then show "request T_RecordSet env r verb path apiVer params body s = (Panic InterfaceConversion, s1)"
    using request_RecordSet_with_hook [of env r verb path apiVer params body s xs s1 v]
    by (cases v) auto
next
  assume "request T_EmptyRecord env (r\<lparr>doAfterRequest := Ok\<rparr>) verb path apiVer params body s = (Ok x, s1) \<and>
    doAfterRequest r (REmptyRecord x) = Ok v \<and> (\<forall>y. v \<noteq> REmptyRecord y)"
  then show "request T_EmptyRecord env r verb path apiVer params body s = (Panic InterfaceConversion, s1)"
    using request_EmptyRecord_with_hook [of env r verb path apiVer params body s x s1 v]
    by (cases v) auto
next
  assume "request T_Record env (r\<lparr>doAfterRequest := Ok\<rparr>) verb path apiVer params body s = (Ok x, s1) \<and>
    doAfterRequest r (RRecord x) = Ok (RRecord x')"
  then show "request T_Record env r verb path apiVer params body s = (Ok x', s1)"
    using request_Record_with_hook [of env r verb path apiVer params body s x s1 "RRecord x'"]
    by auto
qed

theorem after_hook_wrong_shape_panics_witness:
  "request T_Record env_record ((interceptable (Views env_record hooked_rest))\<lparr>doAfterRequest := Ok\<rparr>)
       ''GET'' ''views/7'' [] None None api_start =
     (Ok (Some [(''id'', VFloat64 7), (''@resourceType'', VString ''View'')]),
      api_start\<lparr>calls := [Do ''GET'' ''https://10.27.40.1:443/api/views/7'' [] ''Api-Token secret''],
                 clock := 1000000\<rparr>) \<and>
   doAfterRequest (interceptable (Views env_record hooked_rest))
       (RRecord (Some [(''id'', VFloat64 7), (''@resourceType'', VString ''View'')])) =
     Ok (RRecordSet []) \<and>
   GetById env_record (Views env_record hooked_rest) 7 api_start =
     (Panic InterfaceConversion,
      api_start\<lparr>calls := [Do ''GET'' ''https://10.27.40.1:443/api/views/7'' [] ''Api-Token secret''],
                 clock := 1000000\<rparr>)"
proof -
  let ?r = "interceptable (Views env_record hooked_rest)"
  let ?x = "Some [(''id'', VFloat64 7), (''@resourceType'', VString ''View'')]"
  let ?s1 = "api_start\<lparr>calls := [Do ''GET'' ''https://10.27.40.1:443/api/views/7'' [] ''Api-Token secret''],
                 clock := 1000000\<rparr>"
  have plain: "request T_Record env_record (?r\<lparr>doAfterRequest := Ok\<rparr>)
       ''GET'' ''views/7'' [] None None api_start = (Ok ?x, ?s1)"
    by (simp add: run_defs)
  have hook: "doAfterRequest ?r (RRecord ?x) = Ok (RRecordSet [])"
    by (simp add: run_defs)
  have other: "\<forall>y. RRecordSet [] \<noteq> RRecord y" by simp
  from after_hook_wrong_shape_panics [where env = env_record and r = ?r and verb = "''GET''"
      and path = "''views/7''" and apiVer = "[]" and params = None and body = None
      and s = api_start and x = ?x and ?s1.0 = ?s1 and v = "RRecordSet []"] plain hook other
  have "request T_Record env_record ?r ''GET'' ''views/7'' [] None None api_start =
      (Panic InterfaceConversion, ?s1)"
    by blast
  moreover have "GetById env_record (Views env_record hooked_rest) 7 api_start =
      request T_Record env_record ?r ''GET'' ''views/7'' [] None None api_start"
    by (simp add: GetById_def checkVastResourceVersionCompat.simps Views_def newResource_def
        idPath_def string_of_int_def string_of_nat.simps)
  ultimately show ?thesis using plain hook by simp
qed

section \<open>Where the code departs from the specification\<close>

subsection \<open>The API version in the URL\<close>

lemma buildUrl_without_version:
  "buildUrl env s path query [] =
     (case url_JoinPath env ''api'' [[], strings_Trim path (CHR ''/'')] of
        None \<Rightarrow> Err JoinPathError
      | Some p \<Rightarrow>
          Ok (url_String env
                \<lparr>Scheme = ''https'',
                 URL_Host = Host (config s) @ '':'' @ string_of_nat (unat (Port (config s))),
                 Path = p, RawQuery = query\<rparr>))"
  by (simp add: buildUrl_def Let_def split: option.splits)

lemma buildUrl_explicit_version_replaced:
  "apiVer \<noteq> [] \<Longrightarrow>
     buildUrl env s path query apiVer = buildUrl env s path query (ApiVersion (config s))"
  by (simp add: buildUrl_def Let_def)

lemma newResource_apiVersion: "apiVersion (newResource env r T path v) = []"
  by (simp add: newResource_def)

text \<open>
  C1. The session is configured with the API version \<open>v5\<close>, and the entry for views, as
  \<open>newResource\<close> makes it, has the empty \<open>apiVersion\<close>. The URL built for the entry's
  path and version is \<^verbatim>\<open>https://10.27.40.1:443/api/views\<close>, and listing the views sends
  the GET there: the configured version is not in the path.
\<close>

theorem entry_url_lacks_configured_version:
  "ApiVersion (config (Session api_rest)) = ''v5'' \<and>
   apiVersion (Views env_empty api_rest) = [] \<and>
   buildUrl env_empty (Session api_rest) (resourcePath (Views env_empty api_rest)) []
       (apiVersion (Views env_empty api_rest)) = Ok ''https://10.27.40.1:443/api/views'' \<and>
   Entry_List env_empty (Views env_empty api_rest) None api_start =
     (Ok [], api_start\<lparr>calls := [Do ''GET'' ''https://10.27.40.1:443/api/views'' []
                                      ''Api-Token secret''],
                        clock := 1000000\<rparr>)"
  by (simp add: run_defs)

subsection \<open>Polling a failed task\<close>

lemma WaitTask_loop_errors:
  "WaitTask_loop env t taskId n interval backoffRate s = (Err e, s') \<Longrightarrow> e = TaskDidNotComplete"
  by (induction n arbitrary: interval s) (auto split: prod.splits res.splits)

lemma WaitTask_errors:
  "WaitTask env t taskId s = (Err e, s') \<Longrightarrow> e = TaskDidNotComplete"
  by (auto simp: WaitTask_def dest: WaitTask_loop_errors)

lemma failed_task_attempt:
  assumes "auth s = ApiRToken ''secret''"
  shows "isTaskComplete env_failed_task (VTasks env_failed_task api_rest) 1 s =
     (Err (TaskFailed ''t'' 1 ''boom''),
      s\<lparr>calls := calls s @ [Do ''GET'' ''https://10.27.40.1:443/api/vtasks/1'' [] ''Api-Token secret''],
        clock := clock s + 1000000\<rparr>)"
  using assms by (simp add: run_defs int64_of_float64_def trunc_def)

lemma failed_task_loop:
  assumes "auth s = ApiRToken ''secret''"
  shows "WaitTask_loop env_failed_task (VTasks env_failed_task api_rest) 1 n interval 1 s =
     (Err TaskDidNotComplete,
      s\<lparr>calls := calls s @
           replicate n (Do ''GET'' ''https://10.27.40.1:443/api/vtasks/1'' [] ''Api-Token secret''),
        clock := clock s + int n * (1000000 + interval)\<rparr>)"
  using assms
proof (induction n arbitrary: s)
  case 0
  then show ?case by simp
next
  case (Suc n)
  let ?c = "Do ''GET'' ''https://10.27.40.1:443/api/vtasks/1'' [] ''Api-Token secret''"
  let ?s = "time_Sleep interval (s\<lparr>calls := calls s @ [?c], clock := clock s + 1000000\<rparr>)"
  have "auth ?s = ApiRToken ''secret''"
    using Suc.prems by (simp add: time_Sleep_def)
  from Suc.IH [OF this] failed_task_attempt [OF Suc.prems] show ?case
    by (simp add: time_Sleep_def replicate_append_same algebra_simps)
qed

text \<open>
  C2. The task resource answers every poll with a task in the state \<open>FAILED\<close> whose last
  message is \<open>boom\<close>. One attempt sees the failure and builds the failure error with that
  message. \<open>WaitTask\<close> nevertheless polls thirty times, sleeping in between, and returns
  the error that the task did not complete in time.
\<close>

theorem WaitTask_polls_failed_task_to_timeout:
  "isTaskComplete env_failed_task (VTasks env_failed_task api_rest) 1 api_start =
     (Err (TaskFailed ''t'' 1 ''boom''),
      api_start\<lparr>calls := [Do ''GET'' ''https://10.27.40.1:443/api/vtasks/1'' [] ''Api-Token secret''],
                 clock := 1000000\<rparr>) \<and>
   WaitTask env_failed_task (VTasks env_failed_task api_rest) 1 api_start =
     (Err TaskDidNotComplete,
      api_start\<lparr>calls := replicate 30
                   (Do ''GET'' ''https://10.27.40.1:443/api/vtasks/1'' [] ''Api-Token secret''),
                 clock := 30 * 501000000\<rparr>)"
proof -
  have a: "auth api_start = ApiRToken ''secret''" "calls api_start = []" "clock api_start = 0"
    by (simp_all add: api_start_def start_def)
  show ?thesis
    using failed_task_attempt [OF a(1)] failed_task_loop [OF a(1), of 30 "500 * 1000000"]
    by (simp add: a WaitTask_def)
qed

subsection \<open>Panics\<close>

lemma Authorize_after_failed_acquisition:
  assumes "auth s = JWT a" and "\<not> initialized a" and "Token a = None"
    and "Authorize env cfg s = (Err e, s1)"
  shows "Authorize env cfg s1 = (Panic NilPointerDereference, s1)"
proof -
  obtain resp s' where acq: "acquireToken env cfg s = (resp, s')"
    by (cases "acquireToken env cfg s")
  with assms have "storeToken env (a\<lparr>initialized := True\<rparr>) resp s' = (Err e, s1)"
    by (simp add: Authorize_def JWT_Authorize_def)
  then have "auth s1 = JWT (a\<lparr>initialized := True\<rparr>)"
    by (auto simp: storeToken_def split: prod.splits option.splits res.splits)
  with assms(3) show ?thesis
    by (simp add: Authorize_def JWT_Authorize_def)
qed

lemma GetVersion_of_no_record:
  assumes "sysVersion s = None"
    and "Entry_List env v (Some [(''status'', VString ''success'')]) s = (Ok [], s1)"
  shows "GetVersion env v s = (Panic IndexOutOfRange, s1)"
  using assms by (simp add: GetVersion.simps cacheVersion_def)

lemma sanitizeVersion_short:
  "length (strings_Split v (CHR ''.'')) < 3 \<Longrightarrow> sanitizeVersion v = Panic SliceBoundsOutOfRange"
  by (simp add: sanitizeVersion_def Let_def)

text \<open>
  C3. Three runs that end in a panic. (1) The token endpoint answers 401, or cannot be
  reached: the first \<open>Authorize\<close> returns an error, the second one panics on the token
  that was never stored. (2) The status list is empty, or its first record has no string
  under \<open>sys_version\<close>: \<open>GetVersion\<close> panics. (3) A version string of two segments:
  \<open>sanitizeVersion\<close> panics.
\<close>

theorem panics_under_expected_failures:
  "fst (Authorize env_denied (Validate jwt_config) jwt_start) = Err (InvalidStatusCode 401 None) \<and>
   fst (Authorize env_denied (Validate jwt_config)
          (snd (Authorize env_denied (Validate jwt_config) jwt_start))) =
     Panic NilPointerDereference \<and>
   fst (Authorize env_unreachable (Validate jwt_config) jwt_start) = Err ServerUnreachable \<and>
   fst (Authorize env_unreachable (Validate jwt_config)
          (snd (Authorize env_unreachable (Validate jwt_config) jwt_start))) =
     Panic NilPointerDereference \<and>
   fst (GetVersion env_empty (Versions env_empty api_rest) api_start) = Panic IndexOutOfRange \<and>
   fst (GetVersion env_no_version (Versions env_no_version api_rest) api_start) =
     Panic InterfaceConversion \<and>
   sanitizeVersion ''5.3'' = Panic SliceBoundsOutOfRange"
  by (simp add: run_defs)

end
